theory Spec2Isabelle
  imports Main "HOL-Library.Char_ord" "HOL-Library.List_Lexorder" "HOL-Library.Word"
begin

unbundle bit_operations_syntax

text \<open>
  NiriSetup is a terminal menu that installs the Niri compositor on GhostBSD: it runs
  \<^verbatim>\<open>pkg\<close>, \<^verbatim>\<open>sysrc\<close>, \<^verbatim>\<open>service\<close>, \<^verbatim>\<open>pw\<close> and \<^verbatim>\<open>kldload\<close>, copies a configuration file
  and edits the shell profile. This theory embeds the functions of \<^verbatim>\<open>NiriSetup.go\<close>
  (the variant with presence checks and the Setup System action): the update function
  of the menu, the Install, Setup System and Configure actions and the bootstrap of the
  runtime directory. External commands and the file system are explicit arguments, so
  that every definition computes.
\<close>

section \<open>Strings\<close>

text \<open>
  Go strings are byte sequences; they are modelled as \<open>string\<close> (a list of \<open>char\<close>).
  The functions below stand for \<^verbatim>\<open>strings.HasPrefix\<close>, \<^verbatim>\<open>strings.Contains\<close>,
  \<^verbatim>\<open>strings.Join\<close>, \<^verbatim>\<open>strings.TrimSpace\<close> and the \<^verbatim>\<open>%d\<close> verb of
  \<^verbatim>\<open>fmt.Sprintf\<close>.
\<close>

fun HasPrefix :: "string \<Rightarrow> string \<Rightarrow> bool" where
  "HasPrefix s [] = True"
| "HasPrefix [] (p # ps) = False"
| "HasPrefix (c # cs) (p # ps) = (c = p \<and> HasPrefix cs ps)"

fun Contains :: "string \<Rightarrow> string \<Rightarrow> bool" where
  "Contains [] sub = (sub = [])"
| "Contains (c # cs) sub = (HasPrefix (c # cs) sub \<or> Contains cs sub)"

fun Join :: "string list \<Rightarrow> string \<Rightarrow> string" where
  "Join [] sep = []"
| "Join [x] sep = x"
| "Join (x # y # ys) sep = x @ sep @ Join (y # ys) sep"

text \<open>
  \<^verbatim>\<open>strings.TrimSpace\<close> removes the leading and the trailing white space, as Unicode
  defines it. \<open>spaceRunes\<close> lists the white space characters by their UTF-8 bytes: the
  six of ASCII, U+0085, U+00A0, U+1680, U+2000 to U+200A, U+2028, U+2029, U+202F, U+205F
  and U+3000. \<open>trimPrefixes\<close> removes, at the head of a string, every occurrence of one
  of the byte sequences given; the tail of the string is trimmed on the reversed string.
\<close>

definition spaceRunes :: "string list" where
  "spaceRunes =
     [[CHR 0x09], [CHR 0x0A], [CHR 0x0B], [CHR 0x0C], [CHR 0x0D], [CHR 0x20],
      [CHR 0xC2, CHR 0x85], [CHR 0xC2, CHR 0xA0], [CHR 0xE1, CHR 0x9A, CHR 0x80],
      [CHR 0xE2, CHR 0x80, CHR 0x80], [CHR 0xE2, CHR 0x80, CHR 0x81],
      [CHR 0xE2, CHR 0x80, CHR 0x82], [CHR 0xE2, CHR 0x80, CHR 0x83],
      [CHR 0xE2, CHR 0x80, CHR 0x84], [CHR 0xE2, CHR 0x80, CHR 0x85],
      [CHR 0xE2, CHR 0x80, CHR 0x86], [CHR 0xE2, CHR 0x80, CHR 0x87],
      [CHR 0xE2, CHR 0x80, CHR 0x88], [CHR 0xE2, CHR 0x80, CHR 0x89],
      [CHR 0xE2, CHR 0x80, CHR 0x8A], [CHR 0xE2, CHR 0x80, CHR 0xA8],
      [CHR 0xE2, CHR 0x80, CHR 0xA9], [CHR 0xE2, CHR 0x80, CHR 0xAF],
      [CHR 0xE2, CHR 0x81, CHR 0x9F], [CHR 0xE3, CHR 0x80, CHR 0x80]]"

function trimPrefixes :: "string list \<Rightarrow> string \<Rightarrow> string" where
  "trimPrefixes rs s =
     (case find (\<lambda>r. r \<noteq> [] \<and> HasPrefix s r) rs of
        None \<Rightarrow> s
      | Some r \<Rightarrow> trimPrefixes rs (drop (length r) s))"
  by pat_completeness auto
termination
proof (relation "measure (\<lambda>(rs, s). length s)")
  show "wf (measure (\<lambda>(rs, s). length s))" by simp
next
  fix rs :: "string list" and s r :: string
  assume "find (\<lambda>r. r \<noteq> [] \<and> HasPrefix s r) rs = Some r"
  then have "r \<noteq> []" and "HasPrefix s r" by (auto simp: find_Some_iff)
  then have "s \<noteq> []" by (cases s; cases r) simp_all
  with \<open>r \<noteq> []\<close> show "((rs, drop (length r) s), (rs, s)) \<in> measure (\<lambda>(rs, s). length s)"
    by simp
qed

declare trimPrefixes.simps [simp del]

definition TrimSpace :: "string \<Rightarrow> string" where
  "TrimSpace s = rev (trimPrefixes (map rev spaceRunes) (rev (trimPrefixes spaceRunes s)))"

definition digit :: "nat \<Rightarrow> char" where
  "digit d = ''0123456789'' ! d"

fun decimal :: "nat \<Rightarrow> string" where
  "decimal n = (if n < 10 then [digit n] else decimal (n div 10) @ [digit (n mod 10)])"

declare decimal.simps [simp del]

text \<open>The number that a string of decimal digits stands for.\<close>

definition decimalValue :: "string \<Rightarrow> nat" where
  "decimalValue s = foldl (\<lambda>a c. 10 * a + (of_char c - 48)) 0 s"

section \<open>The menu: \<^verbatim>\<open>model\<close> and \<^verbatim>\<open>Update\<close>\<close>

datatype appState = menuView | installView | actionView

text \<open>
  A Go \<^verbatim>\<open>error\<close> is kept as its text, together with what \<^verbatim>\<open>os.IsNotExist\<close>
  says about it; \<open>None\<close> of type \<open>error option\<close> is \<^verbatim>\<open>nil\<close>.
\<close>

datatype error = ErrNotExist string | Err string

fun IsNotExist :: "error \<Rightarrow> bool" where
  "IsNotExist (ErrNotExist e) = True"
| "IsNotExist (Err e) = False"

fun errText :: "error \<Rightarrow> string" where
  "errText (ErrNotExist e) = e"
| "errText (Err e) = e"

record statusMsg =
  status :: string
  err :: "error option"

record model =
  state :: appState
  choices :: "string list"
  cursor :: int
  selected :: string
  logs :: "string list"
  isProcessing :: bool
  progress :: string
  actionMsg :: string

text \<open>
  The command returned by \<^verbatim>\<open>Update\<close>: \<^verbatim>\<open>nil\<close>, \<^verbatim>\<open>tea.Quit\<close>, or one of
  the five actions. \<^verbatim>\<open>saveLogsToFile(m)\<close> captures the log buffer of the model it is given.
\<close>

datatype cmd =
    NoCmd
  | Quit
  | InstallNiriCmd
  | SetupSystemCmd
  | ConfigureNiriCmd
  | ValidateNiriConfigCmd
  | SaveLogsToFileCmd "string list"

text \<open>
  The messages: a key (by its \<^verbatim>\<open>String()\<close>), a completion message, or any other
  message of the framework (a window size, for instance).
\<close>

datatype msg = KeyMsg string | StatusMsg statusMsg | OtherMsg

datatype panic = IndexOutOfRange

definition initialModel :: model where
  "initialModel =
     \<lparr> state = menuView,
       choices = [''Install Niri'', ''Setup System'', ''Configure Niri'',
                  ''Validate Config'', ''Save Logs'', ''Exit''],
       cursor = 0, selected = [], logs = [], isProcessing = False,
       progress = [], actionMsg = [] \<rparr>"

text \<open>The inner switch of the \<^verbatim>\<open>"enter"\<close> case, after \<^verbatim>\<open>selected\<close> and
  \<^verbatim>\<open>isProcessing\<close> are set.\<close>

definition dispatch :: "model \<Rightarrow> model \<times> cmd" where
  "dispatch m =
     (if selected m = ''Install Niri'' then (m\<lparr>state := installView\<rparr>, InstallNiriCmd)
      else if selected m = ''Setup System'' then (m\<lparr>state := installView\<rparr>, SetupSystemCmd)
      else if selected m = ''Configure Niri'' then
        (m\<lparr>state := actionView, actionMsg := ''Configuring Niri...''\<rparr>, ConfigureNiriCmd)
      else if selected m = ''Validate Config'' then
        (m\<lparr>state := actionView, actionMsg := ''Validating Niri config...''\<rparr>,
         ValidateNiriConfigCmd)
      else if selected m = ''Save Logs'' then
        (m\<lparr>state := actionView, actionMsg := ''Saving logs...''\<rparr>,
         SaveLogsToFileCmd (logs m))
      else if selected m = ''Exit'' then (m, Quit)
      else (m, NoCmd))"

text \<open>The key handling of the menu view. Indexing \<^verbatim>\<open>m.choices[m.cursor]\<close> out of
  range panics.\<close>

definition menuKey :: "model \<Rightarrow> string \<Rightarrow> panic + model \<times> cmd" where
  "menuKey m k =
     (if k = ''ctrl+c'' \<or> k = ''q'' then Inr (m, Quit)
      else if k = ''up'' then
        Inr (if cursor m > 0 then m\<lparr>cursor := cursor m - 1\<rparr> else m, NoCmd)
      else if k = ''down'' then
        Inr (if cursor m < int (length (choices m)) - 1 then m\<lparr>cursor := cursor m + 1\<rparr> else m,
             NoCmd)
      else if k = ''enter'' then
        (if 0 \<le> cursor m \<and> cursor m < int (length (choices m)) then
           Inr (dispatch (m\<lparr>selected := choices m ! nat (cursor m), isProcessing := True\<rparr>))
         else Inl IndexOutOfRange)
      else Inr (m, NoCmd))"

text \<open>The \<^verbatim>\<open>statusMsg\<close> case.\<close>

definition onStatus :: "model \<Rightarrow> statusMsg \<Rightarrow> model" where
  "onStatus m0 s =
     (let m = m0\<lparr>logs := logs m0 @ [status s], isProcessing := False\<rparr> in
      if err s = None \<and> state m = installView then m\<lparr>state := menuView, logs := []\<rparr>
      else if err s = None \<and> state m = actionView then
        m\<lparr>state := menuView, actionMsg := status s\<rparr>
      else m)"

fun Update :: "model \<Rightarrow> msg \<Rightarrow> panic + model \<times> cmd" where
  "Update m (KeyMsg k) =
     (case state m of
        menuView \<Rightarrow> menuKey m k
      | installView \<Rightarrow> Inr (m, NoCmd)
      | actionView \<Rightarrow> Inr (m, NoCmd))"
| "Update m (StatusMsg s) = Inr (onStatus m s, NoCmd)"
| "Update m OtherMsg = Inr (m, NoCmd)"

text \<open>
  The event loop on a list of messages: the models and commands produced, or the panic
  of the first update that panics.
\<close>

fun run :: "model \<Rightarrow> msg list \<Rightarrow> panic + model \<times> cmd list" where
  "run m [] = Inr (m, [])"
| "run m (x # xs) =
     (case Update m x of
        Inl p \<Rightarrow> Inl p
      | Inr (m', c) \<Rightarrow>
          (case run m' xs of Inl p \<Rightarrow> Inl p | Inr (m'', cs) \<Rightarrow> Inr (m'', c # cs)))"

definition busy :: "model \<Rightarrow> bool" where
  "busy m = (state m = installView \<or> state m = actionView)"

definition cursor_inv :: "model \<Rightarrow> bool" where
  "cursor_inv m = (0 \<le> cursor m \<and> cursor m \<le> int (length (choices m)) - 1)"

definition isStatus :: "msg \<Rightarrow> bool" where
  "isStatus x = (case x of StatusMsg s \<Rightarrow> True | _ \<Rightarrow> False)"


section \<open>External commands\<close>

text \<open>
  An external command is run by a \<open>runner\<close>: from the state of the outside world (of any
  type \<open>'r\<close>) and the command line it gives the combined output, whether the command
  succeeded (\<^verbatim>\<open>err == nil\<close>), and the next state of the outside world. Every
  invocation is recorded, in order, as an \<open>event\<close>.
\<close>

type_synonym event = "string list \<times> string \<times> bool"

type_synonym 'r runner = "'r \<Rightarrow> string list \<Rightarrow> (string \<times> bool) \<times> 'r"

definition exec :: "'r runner \<Rightarrow> 'r \<times> event list \<Rightarrow> string list \<Rightarrow> (string \<times> bool) \<times> 'r \<times> event list" where
  "exec R s argv =
     (case R (fst s) argv of
        ((out, ok), r') \<Rightarrow> ((out, ok), (r', snd s @ [(argv, out, ok)])))"

text \<open>
  The events of a run are the answers of the runner: replaying their command lines, one
  after the other from the first state of the outside world, gives the same outputs,
  and the last state of the outside world.
\<close>

fun replay :: "'r runner \<Rightarrow> 'r \<Rightarrow> event list \<Rightarrow> 'r option" where
  "replay R r [] = Some r"
| "replay R r (e # t) =
     (case R r (fst e) of
        (res, r') \<Rightarrow> (if res = snd e then replay R r' t else None))"

definition nl :: string where
  "nl = [CHR 0x0A]"

section \<open>The Install action\<close>

definition infoCmd :: "string \<Rightarrow> string list" where
  "infoCmd pkg = [''pkg'', ''info'', pkg]"

definition installCmd :: "string \<Rightarrow> string list" where
  "installCmd pkg = [''sudo'', ''pkg'', ''install'', ''-y'', pkg]"

definition isPackageInstalled :: "'r runner \<Rightarrow> 'r \<times> event list \<Rightarrow> string \<Rightarrow> bool \<times> 'r \<times> event list" where
  "isPackageInstalled R s pkg = (case exec R s (infoCmd pkg) of ((out, ok), s') \<Rightarrow> (ok, s'))"

definition pkgs :: "string list" where
  "pkgs = [''drm-kmod'', ''mesa-libs'', ''mesa-dri'', ''consolekit2'', ''dbus'', ''niri'',
           ''xwayland-satellite'', ''seatd'', ''waybar'', ''grim'', ''jq'', ''wofi'',
           ''alacritty'', ''pam_xdg'', ''fuzzel'', ''swaylock'', ''foot'', ''wlsunset'',
           ''swaybg'', ''mako'', ''swayidle'']"

text \<open>
  One iteration of the loop over the packages. The loop state is the outside world with
  the events so far, the slice \<^verbatim>\<open>logs\<close> and the slice \<^verbatim>\<open>failed\<close>.
\<close>

type_synonym 'r installState = "('r \<times> event list) \<times> string list \<times> string list"

definition installStep :: "'r runner \<Rightarrow> 'r installState \<Rightarrow> string \<Rightarrow> 'r installState" where
  "installStep R st pkg =
     (case st of (s, lg, fl) \<Rightarrow>
        (case isPackageInstalled R s pkg of
           (True, s1) \<Rightarrow> (s1, lg @ [''Already installed: '' @ pkg], fl)
         | (False, s1) \<Rightarrow>
             (case exec R s1 (installCmd pkg) of
                ((out, False), s2) \<Rightarrow>
                  (s2, lg @ [''Failed to install '' @ pkg @ '': '' @ TrimSpace out], fl @ [pkg])
              | ((out, True), s2) \<Rightarrow>
                  (s2, lg @ [''Successfully installed '' @ pkg], fl))))"

definition installLoop :: "'r runner \<Rightarrow> 'r \<Rightarrow> string list \<Rightarrow> 'r installState" where
  "installLoop R r ps = foldl (installStep R) ((r, []), [], []) ps"

definition failedSummary :: "string list \<Rightarrow> string" where
  "failedSummary fl =
     nl @ ''Failed packages ('' @ decimal (length fl) @ ''): '' @ Join fl '', ''"

text \<open>The part of \<^verbatim>\<open>installNiri\<close> after the loop.\<close>

definition installResult :: "string list \<Rightarrow> string list \<Rightarrow> statusMsg" where
  "installResult lg fl =
     (if length fl > 0 then
        \<lparr> status = Join (lg @ [failedSummary fl]) nl,
          err = Some (Err (decimal (length fl) @ '' packages failed to install'')) \<rparr>
      else \<lparr> status = Join lg nl, err = None \<rparr>)"

definition installNiri :: "'r runner \<Rightarrow> 'r \<Rightarrow> ('r \<times> event list) \<times> statusMsg" where
  "installNiri R r =
     (case installLoop R r pkgs of (s, lg, fl) \<Rightarrow> (s, installResult lg fl))"

text \<open>What the events say: the packages whose install command ran and failed.\<close>

definition installFailed :: "event list \<Rightarrow> string \<Rightarrow> bool" where
  "installFailed t p = (\<exists>e \<in> set t. fst e = installCmd p \<and> \<not> snd (snd e))"

definition installRan :: "event list \<Rightarrow> string \<Rightarrow> bool" where
  "installRan t p = (\<exists>e \<in> set t. fst e = installCmd p)"

definition foundPresent :: "event list \<Rightarrow> string \<Rightarrow> bool" where
  "foundPresent t p = (\<exists>e \<in> set t. fst e = infoCmd p \<and> snd (snd e))"

definition isInfo :: "event \<Rightarrow> bool" where
  "isInfo e = (case fst e of [a, b, c] \<Rightarrow> a = ''pkg'' \<and> b = ''info'' | _ \<Rightarrow> False)"

text \<open>The three forms of a package's outcome line.\<close>

definition outcomeLine :: "string \<Rightarrow> string \<Rightarrow> bool" where
  "outcomeLine p l =
     (l = ''Already installed: '' @ p \<or> l = ''Successfully installed '' @ p \<or>
      HasPrefix l (''Failed to install '' @ p @ '': ''))"


text \<open>
  What one iteration of the loop for the package \<open>p\<close> adds: the events \<open>c\<close>, the log
  line \<open>l\<close> and the failed packages \<open>f\<close>, in the three ways the iteration can go.
\<close>

definition chunk :: "string \<Rightarrow> event list \<Rightarrow> string \<Rightarrow> string list \<Rightarrow> bool" where
  "chunk p c l f =
     ((\<exists>out. c = [(infoCmd p, out, True)] \<and> l = ''Already installed: '' @ p \<and> f = []) \<or>
      (\<exists>out out2. c = [(infoCmd p, out, False), (installCmd p, out2, False)] \<and>
                   l = ''Failed to install '' @ p @ '': '' @ TrimSpace out2 \<and> f = [p]) \<or>
      (\<exists>out out2. c = [(infoCmd p, out, False), (installCmd p, out2, True)] \<and>
                   l = ''Successfully installed '' @ p \<and> f = []))"

text \<open>What the events, the log and the failed packages of a run over distinct
  packages say of each package.\<close>

definition loopFacts :: "string list \<Rightarrow> event list \<Rightarrow> string list \<Rightarrow> string list \<Rightarrow> bool" where
  "loopFacts ps t lg fl =
     (map fst (filter isInfo t) = map infoCmd ps \<and>
      (\<forall>e \<in> set t. \<exists>q \<in> set ps. fst e = infoCmd q \<or> fst e = installCmd q) \<and>
      list_all2 outcomeLine ps lg \<and>
      fl = filter (installFailed t) ps \<and>
      (\<forall>p \<in> set ps. foundPresent t p \<longrightarrow>
           \<not> installRan t p \<and> ''Already installed: '' @ p \<in> set lg) \<and>
      (\<forall>p \<in> set ps. \<not> foundPresent t p \<longrightarrow> installRan t p))"

text \<open>
  A run of the loop over the packages \<open>ps\<close>, as the list of what each iteration adds.
\<close>

type_synonym installAdd = "event list \<times> string \<times> string list"

definition loopAdds :: "string list \<Rightarrow> installAdd list \<Rightarrow> bool" where
  "loopAdds ps as = list_all2 (\<lambda>p a. chunk p (fst a) (fst (snd a)) (snd (snd a))) ps as"

text \<open>The events, the slice \<^verbatim>\<open>logs\<close> and the slice \<^verbatim>\<open>failed\<close> at the end of
  the loop of \<^verbatim>\<open>installNiri\<close>.\<close>

definition installEvents :: "'r runner \<Rightarrow> 'r \<Rightarrow> event list" where
  "installEvents R r = snd (fst (installLoop R r pkgs))"

definition installLogs :: "'r runner \<Rightarrow> 'r \<Rightarrow> string list" where
  "installLogs R r = fst (snd (installLoop R r pkgs))"

definition installFailedPkgs :: "'r runner \<Rightarrow> 'r \<Rightarrow> string list" where
  "installFailedPkgs R r = snd (snd (installLoop R r pkgs))"

text \<open>An example of a runner: only \<^verbatim>\<open>pkg info dbus\<close> succeeds, every other command
  fails.\<close>

definition onlyDbus :: "unit runner" where
  "onlyDbus r argv =
     (if argv = infoCmd ''dbus'' then ((''dbus-1.14.10_5'', True), r)
      else (('' pkg: No packages available'' @ [CHR 0x0A], False), r))"

section \<open>The operating system\<close>

text \<open>
  The part of the operating system the program reads and writes, outside of external
  commands. A path leads to a node of the file system, links followed, and several
  paths may lead to the same node; the nodes are numbered. Operations fail where the
  source can see them fail: because of what is in the file system, because the owner of
  a file lacks the permission bit, or because the path is in one of the \<open>...Fails\<close>
  tables (a directory that cannot be searched or written, a file of another user, an
  I/O error), which give the error. External commands are taken not to touch the paths
  the program itself reads and writes.
\<close>

record node =
  isDir :: bool
  content :: string
  uid :: "32 word"
  perm :: "32 word"

text \<open>
  The fields of the world: the node number a path leads to (\<open>paths\<close>), the nodes by
  number (\<open>inodes\<close>) and the first number not in use (\<open>nextIno\<close>); the paths on which
  \<^verbatim>\<open>os.Stat\<close> fails for another reason than absence (\<open>statFails\<close>), which cannot be
  opened for reading (\<open>readFails\<close>) or for writing (\<open>writeFails\<close>), and where no directory
  can be made (\<open>mkdirFails\<close>); the environment variables; the effective user and the
  umask of the process; the results of \<^verbatim>\<open>os.UserHomeDir\<close>, \<^verbatim>\<open>os.Executable\<close> and
  \<^verbatim>\<open>os.Getwd\<close>; whether \<^verbatim>\<open>FileInfo.Sys()\<close> is a \<^verbatim>\<open>*syscall.Stat_t\<close>; and the
  result of \<^verbatim>\<open>os.ReadDir("/dev/dri")\<close>.
\<close>

record world =
  paths :: "string \<rightharpoonup> nat"
  inodes :: "nat \<Rightarrow> node"
  nextIno :: nat
  statFails :: "string \<rightharpoonup> string"
  readFails :: "string \<rightharpoonup> string"
  writeFails :: "string \<rightharpoonup> string"
  mkdirFails :: "string \<rightharpoonup> string"
  environ :: "string \<rightharpoonup> string"
  euid :: "32 word"
  umask :: "32 word"
  home :: "error + string"
  exePath :: "error + string"
  cwd :: string
  sysStat_t :: bool
  devDri :: "error + string list"

definition nodeAt :: "world \<Rightarrow> string \<Rightarrow> node option" where
  "nodeAt w p = map_option (inodes w) (paths w p)"


text \<open>A new node at a path that leads nowhere, and a new content for a node.\<close>

definition create :: "world \<Rightarrow> string \<Rightarrow> node \<Rightarrow> world" where
  "create w p n =
     w\<lparr>paths := (paths w)(p \<mapsto> nextIno w), inodes := (inodes w)(nextIno w := n),
       nextIno := Suc (nextIno w)\<rparr>"

definition setContent :: "world \<Rightarrow> nat \<Rightarrow> string \<Rightarrow> world" where
  "setContent w i d = w\<lparr>inodes := (inodes w)(i := (inodes w i)\<lparr>content := d\<rparr>)\<rparr>"

text \<open>
  The permission bits decide for the owner of a file: the owner reads with the bit
  \<^verbatim>\<open>0400\<close> (\<open>256\<close>) and writes with the bit \<^verbatim>\<open>0200\<close> (\<open>128\<close>); the user 0 needs no bit.
  For the files of other users the tables decide.
\<close>

definition ownerMay :: "world \<Rightarrow> node \<Rightarrow> 32 word \<Rightarrow> bool" where
  "ownerMay w n b = (euid w = 0 \<or> uid n \<noteq> euid w \<or> perm n AND b \<noteq> 0)"

definition os_Getenv :: "world \<Rightarrow> string \<Rightarrow> string" where
  "os_Getenv w k = (case environ w k of None \<Rightarrow> [] | Some v \<Rightarrow> v)"

definition os_Setenv :: "world \<Rightarrow> string \<Rightarrow> string \<Rightarrow> world" where
  "os_Setenv w k v = w\<lparr>environ := (environ w)(k \<mapsto> v)\<rparr>"

definition os_Stat :: "world \<Rightarrow> string \<Rightarrow> error + node" where
  "os_Stat w p =
     (case statFails w p of
        Some e \<Rightarrow> Inl (Err e)
      | None \<Rightarrow>
          (case nodeAt w p of
             None \<Rightarrow> Inl (ErrNotExist (''stat '' @ p @ '': no such file or directory''))
           | Some n \<Rightarrow> Inr n))"

text \<open>\<^verbatim>\<open>info.Sys().(*syscall.Stat_t)\<close>: the assertion holds on the platforms where
  \<^verbatim>\<open>Sys()\<close> is a \<^verbatim>\<open>*syscall.Stat_t\<close>.\<close>

definition Sys_Stat_t :: "world \<Rightarrow> node \<Rightarrow> node option" where
  "Sys_Stat_t w n = (if sysStat_t w then Some n else None)"

text \<open>\<^verbatim>\<open>os.Mkdir\<close>: the new directory belongs to the effective user and has the
  permission bits asked for, less those of the umask.\<close>

definition newDir :: "world \<Rightarrow> 32 word \<Rightarrow> node" where
  "newDir w mode = \<lparr> isDir = True, content = [], uid = euid w, perm = mode AND NOT (umask w) \<rparr>"

definition newFile :: "world \<Rightarrow> string \<Rightarrow> 32 word \<Rightarrow> node" where
  "newFile w d mode = \<lparr> isDir = False, content = d, uid = euid w, perm = mode AND NOT (umask w) \<rparr>"

definition os_Mkdir :: "world \<Rightarrow> string \<Rightarrow> 32 word \<Rightarrow> error + world" where
  "os_Mkdir w p mode =
     (case mkdirFails w p of
        Some e \<Rightarrow> Inl (Err e)
      | None \<Rightarrow>
          (case paths w p of
             Some i \<Rightarrow> Inl (Err (''mkdir '' @ p @ '': file exists''))
           | None \<Rightarrow> Inr (create w p (newDir w mode))))"




definition os_ReadFile :: "world \<Rightarrow> string \<Rightarrow> error + string" where
  "os_ReadFile w p =
     (case readFails w p of
        Some e \<Rightarrow> Inl (Err e)
      | None \<Rightarrow>
          (case nodeAt w p of
             None \<Rightarrow> Inl (ErrNotExist (''open '' @ p @ '': no such file or directory''))
           | Some n \<Rightarrow>
               (if isDir n then Inl (Err (''read '' @ p @ '': is a directory''))
                else if \<not> ownerMay w n 256 then Inl (Err (''open '' @ p @ '': permission denied''))
                else Inr (content n))))"

text \<open>
  \<^verbatim>\<open>os.Open\<close> of a device listed by \<^verbatim>\<open>os.ReadDir\<close>, closed at once: only its error
  is used. The device need not have a node in \<open>paths\<close>.
\<close>

definition os_Open :: "world \<Rightarrow> string \<Rightarrow> error option" where
  "os_Open w p =
     (case readFails w p of
        Some e \<Rightarrow> Some (Err e)
      | None \<Rightarrow>
          (case nodeAt w p of
             None \<Rightarrow> None
           | Some n \<Rightarrow>
               (if \<not> ownerMay w n 256 then Some (Err (''open '' @ p @ '': permission denied''))
                else None)))"


text \<open>
  \<^verbatim>\<open>os.OpenFile(p, O_APPEND|O_CREATE|O_WRONLY, mode)\<close>: the file is created empty if
  absent. \<^verbatim>\<open>WriteString\<close> on the file opened so appends to the content of its node;
  the source ignores the error of \<^verbatim>\<open>WriteString\<close>, and the write is taken to succeed.
\<close>

definition os_OpenAppend :: "world \<Rightarrow> string \<Rightarrow> 32 word \<Rightarrow> error + world" where
  "os_OpenAppend w p mode =
     (case writeFails w p of
        Some e \<Rightarrow> Inl (Err e)
      | None \<Rightarrow>
          (case paths w p of
             None \<Rightarrow> Inr (create w p (newFile w [] mode))
           | Some i \<Rightarrow>
               (if isDir (inodes w i) then Inl (Err (''open '' @ p @ '': is a directory''))
                else if \<not> ownerMay w (inodes w i) 128 then
                  Inl (Err (''open '' @ p @ '': permission denied''))
                else Inr w)))"

definition WriteString :: "world \<Rightarrow> string \<Rightarrow> string \<Rightarrow> world" where
  "WriteString w p d =
     (case paths w p of
        None \<Rightarrow> w
      | Some i \<Rightarrow> setContent w i (content (inodes w i) @ d))"

text \<open>
  \<^verbatim>\<open>filepath.Clean\<close>: the path is split at its separators; empty elements and
  \<^verbatim>\<open>.\<close> are dropped, \<^verbatim>\<open>..\<close> takes the element before it away (and is dropped at the
  root, kept at the head of a relative path); the empty result is \<^verbatim>\<open>.\<close>.
  \<^verbatim>\<open>filepath.Join\<close> cleans the non-empty elements joined by separators, and
  \<^verbatim>\<open>filepath.Dir\<close> cleans the path up to its last separator.
\<close>

fun splitSlash :: "string \<Rightarrow> string list" where
  "splitSlash [] = [[]]"
| "splitSlash (c # cs) =
     (if c = CHR ''/'' then [] # splitSlash cs
      else (case splitSlash cs of [] \<Rightarrow> [[c]] | x # xs \<Rightarrow> (c # x) # xs))"

definition cleanStep :: "bool \<Rightarrow> string list \<Rightarrow> string \<Rightarrow> string list" where
  "cleanStep rooted st e =
     (if e = [] \<or> e = ''.'' then st
      else if e = ''..'' then
        (case st of
           [] \<Rightarrow> (if rooted then [] else [''..''])
         | x # rest \<Rightarrow> (if x = ''..'' then ''..'' # st else rest))
      else e # st)"

definition Clean :: "string \<Rightarrow> string" where
  "Clean p =
     (if p = [] then ''.''
      else (let rooted = (hd p = CHR ''/'');
                out = Join (rev (foldl (cleanStep rooted) [] (splitSlash p))) ''/''
            in if rooted then CHR ''/'' # out else if out = [] then ''.'' else out))"

definition filepath_Join :: "string list \<Rightarrow> string" where
  "filepath_Join elems =
     (let es = filter (\<lambda>e. e \<noteq> []) elems in if es = [] then [] else Clean (Join es ''/''))"


section \<open>The runtime directory\<close>

definition runtimeDirOf :: "32 word \<Rightarrow> string" where
  "runtimeDirOf userID = ''/tmp/'' @ decimal (unat userID) @ ''-runtime-dir''"

text \<open>
  \<^verbatim>\<open>setupEnvironment\<close>: \<open>Inl\<close> is \<^verbatim>\<open>log.Fatalf\<close>, with the diagnostic and the world
  the process leaves behind; \<open>Inr\<close> is the world after a normal return. The mode
  \<^verbatim>\<open>0700\<close> is \<open>448\<close>.
\<close>

definition setupEnvironment :: "world \<Rightarrow> string \<times> world + world" where
  "setupEnvironment w0 =
     (let userID = euid w0;
          runtimeDir = runtimeDirOf userID;
          w = os_Setenv w0 ''XDG_RUNTIME_DIR'' runtimeDir
      in if (case os_Stat w runtimeDir of Inl e \<Rightarrow> IsNotExist e | Inr info \<Rightarrow> False) then
           (case os_Mkdir w runtimeDir 448 of
              Inl e \<Rightarrow> Inl (''Failed to create runtime directory: '' @ errText e, w)
            | Inr w' \<Rightarrow> Inr w')
         else
           (case os_Stat w runtimeDir of
              Inl e \<Rightarrow> Inl (''Failed to stat runtime directory: '' @ errText e, w)
            | Inr info \<Rightarrow>
                (case Sys_Stat_t w info of
                   None \<Rightarrow> Inl (''Failed to get ownership information of runtime directory'', w)
                 | Some st \<Rightarrow>
                     (if uid st \<noteq> userID then
                        Inl (''XDG_RUNTIME_DIR '' @ [CHR 0x27] @ runtimeDir @ [CHR 0x27]
                               @ '' is owned by UID '' @ decimal (unat (uid st))
                               @ '', not our UID '' @ decimal (unat userID), w)
                      else Inr w))))"


section \<open>The Configure action\<close>


text \<open>\<^verbatim>\<open>os.ReadDir("/dev/dri")\<close> is the field \<open>devDri\<close> of the world: the names of the
  entries, or the error.\<close>

definition findRenderDevice :: "world \<Rightarrow> string" where
  "findRenderDevice w =
     (case devDri w of
        Inl e \<Rightarrow> []
      | Inr entries \<Rightarrow>
          (let renderNodes =
                 map (\<lambda>e. filepath_Join [''/dev/dri'', e])
                   (filter (\<lambda>e. HasPrefix e ''renderD'') entries)
           in if length renderNodes = 0 then [] else sort renderNodes ! 0))"







definition startHint :: "string list" where
  "startHint =
     [''To start niri, switch to a TTY (Ctrl+Alt+F2) and run:'',
      ''  LIBSEAT_BACKEND=consolekit2 ck-launch-session dbus-launch niri --session'']"



section \<open>The Setup System action\<close>

definition serviceSteps :: "(string \<times> string list) list" where
  "serviceSteps =
     [(''Enabling dbus service'', [''sudo'', ''sysrc'', ''dbus_enable=YES'']),
      (''Starting dbus service'', [''sudo'', ''service'', ''dbus'', ''start'']),
      (''Enabling seatd service'', [''sudo'', ''sysrc'', ''seatd_enable=YES'']),
      (''Starting seatd service'', [''sudo'', ''service'', ''seatd'', ''start''])]"

text \<open>The log entry of a service step, from its description and the outcome of its
  command.\<close>

definition serviceLine :: "string \<Rightarrow> string \<times> bool \<Rightarrow> string" where
  "serviceLine desc res =
     (case res of (out, ok) \<Rightarrow>
        (if \<not> ok then
           (if \<not> Contains out ''already running'' then ''Warning: '' @ desc @ '': '' @ out
            else desc @ '': already running'')
         else desc @ '': OK''))"

type_synonym 'r setupState = "('r \<times> event list) \<times> string list"

definition serviceStep :: "'r runner \<Rightarrow> 'r setupState \<Rightarrow> string \<times> string list \<Rightarrow> 'r setupState" where
  "serviceStep R st step =
     (case exec R (fst st) (snd step) of
        (res, s') \<Rightarrow> (s', snd st @ [serviceLine (fst step) res]))"

definition currentUserOf :: "world \<Rightarrow> string" where
  "currentUserOf w =
     (if os_Getenv w ''USER'' = [] then os_Getenv w ''LOGNAME'' else os_Getenv w ''USER'')"

definition groupLine :: "string \<Rightarrow> string \<times> bool \<Rightarrow> string" where
  "groupLine currentUser res =
     (case res of (out, ok) \<Rightarrow>
        (if \<not> ok then ''Warning: Adding user to video group: '' @ out
         else ''Added user '' @ [CHR 0x27] @ currentUser @ [CHR 0x27] @ '' to video group: OK''))"

definition groupStep :: "'r runner \<Rightarrow> world \<Rightarrow> 'r setupState \<Rightarrow> 'r setupState" where
  "groupStep R w st =
     (let currentUser = currentUserOf w
      in if currentUser \<noteq> [] then
           (case exec R (fst st) [''sudo'', ''pw'', ''groupmod'', ''video'', ''-m'', currentUser] of
              (res, s') \<Rightarrow> (s', snd st @ [groupLine currentUser res]))
         else (fst st, snd st @ [''Warning: Could not determine current user for group setup'']))"

definition kldLine :: "string \<times> bool \<Rightarrow> string" where
  "kldLine res =
     (case res of (out, ok) \<Rightarrow>
        (if \<not> ok then
           (if Contains out ''already loaded'' \<or> Contains out ''module already loaded''
            then ''Loading DRM kernel module: already loaded''
            else ''Warning: Loading DRM kernel module: '' @ out)
         else ''Loading DRM kernel module: OK''))"

definition kldStep :: "'r runner \<Rightarrow> 'r setupState \<Rightarrow> 'r setupState" where
  "kldStep R st =
     (case exec R (fst st) [''sudo'', ''kldload'', ''drm''] of
        (res, s') \<Rightarrow> (s', snd st @ [kldLine res]))"

definition persistLine :: "string \<times> bool \<Rightarrow> string" where
  "persistLine res =
     (case res of (out, ok) \<Rightarrow>
        (if \<not> ok then ''Warning: Persisting DRM module to boot: '' @ out
         else ''Persisting DRM module to boot: OK''))"

definition persistStep :: "'r runner \<Rightarrow> 'r setupState \<Rightarrow> 'r setupState" where
  "persistStep R st =
     (case exec R (fst st) [''sudo'', ''sysrc'', ''kld_list+=drm''] of
        (res, s') \<Rightarrow> (s', snd st @ [persistLine res]))"

text \<open>\<^verbatim>\<open>os.UserHomeDir\<close> gives the empty string with its error, and the error is
  dropped.\<close>

definition profilePathOf :: "world \<Rightarrow> string" where
  "profilePathOf w =
     filepath_Join [(case home w of Inl e \<Rightarrow> [] | Inr homeDir \<Rightarrow> homeDir), ''.profile'']"

definition xdgLine :: "world \<Rightarrow> string" where
  "xdgLine w = ''export XDG_RUNTIME_DIR=/tmp/'' @ decimal (unat (euid w)) @ ''-runtime-dir''"

text \<open>\<^verbatim>\<open>string(profileContent)\<close>: the data read, empty when the read failed.\<close>

definition readString :: "world \<Rightarrow> string \<Rightarrow> string" where
  "readString w p = (case os_ReadFile w p of Inl e \<Rightarrow> [] | Inr d \<Rightarrow> d)"

definition readFailed :: "world \<Rightarrow> string \<Rightarrow> bool" where
  "readFailed w p = (case os_ReadFile w p of Inl e \<Rightarrow> True | Inr d \<Rightarrow> False)"

text \<open>The texts written to the profile: the comment before the line of step 5, and
  the line of step 5b.\<close>

definition xdgComment :: string where
  "xdgComment = nl @ ''# Set XDG_RUNTIME_DIR for Wayland compositors'' @ nl"

definition libseatLine :: string where
  "libseatLine = ''export LIBSEAT_BACKEND=consolekit2'' @ nl"

text \<open>Step 5: the world and the log after it, and \<^verbatim>\<open>profileStr\<close> for step 5b.\<close>

definition xdgStep :: "world \<Rightarrow> string list \<Rightarrow> world \<times> string list \<times> string" where
  "xdgStep w lg =
     (let profilePath = profilePathOf w;
          profileStr = readString w profilePath
      in if readFailed w profilePath \<or> \<not> Contains profileStr ''XDG_RUNTIME_DIR'' then
           (case os_OpenAppend w profilePath 420 of
              Inl e \<Rightarrow>
                (w, lg @ [''Warning: Could not write to '' @ profilePath @ '': '' @ errText e],
                 profileStr)
            | Inr f \<Rightarrow>
                (let w1 = WriteString f profilePath xdgComment;
                     w2 = WriteString w1 profilePath (xdgLine w @ nl)
                 in (w2, lg @ [''Added XDG_RUNTIME_DIR to '' @ profilePath @ '': OK''],
                     readString w2 profilePath)))
         else (w, lg @ [''XDG_RUNTIME_DIR already in .profile: OK''], profileStr))"

text \<open>Step 5b.\<close>

definition libseatStep :: "world \<Rightarrow> string \<Rightarrow> string list \<Rightarrow> world \<times> string list" where
  "libseatStep w profileStr lg =
     (let profilePath = profilePathOf w
      in if \<not> Contains profileStr ''LIBSEAT_BACKEND'' then
           (case os_OpenAppend w profilePath 420 of
              Inl e \<Rightarrow>
                (w, lg @ [''Warning: Could not write to '' @ profilePath @ '': '' @ errText e])
            | Inr f \<Rightarrow>
                (WriteString f profilePath libseatLine,
                 lg @ [''Added LIBSEAT_BACKEND=consolekit2 to .profile: OK'']))
         else (w, lg @ [''LIBSEAT_BACKEND already in .profile: OK'']))"

text \<open>Steps 5 and 5b together: the profile-line-append step.\<close>

definition profileStep :: "world \<Rightarrow> string list \<Rightarrow> world \<times> string list" where
  "profileStep w lg =
     (case xdgStep w lg of (w1, lg1, profileStr) \<Rightarrow> libseatStep w1 profileStr lg1)"

text \<open>Step 6.\<close>

definition renderStep :: "world \<Rightarrow> string list \<Rightarrow> string list" where
  "renderStep w lg =
     (let renderDev = findRenderDevice w
      in if renderDev \<noteq> [] then
           (let lg1 = lg @ [''Found DRM render device: '' @ renderDev]
            in case os_Open w renderDev of
                 Some e \<Rightarrow>
                   lg1 @ [''Warning: Cannot access '' @ renderDev @ '': '' @ errText e
                            @ '' (check video group membership)'']
               | None \<Rightarrow> lg1 @ [''DRM render device '' @ renderDev @ '' is accessible: OK''])
         else lg @ [''Warning: No DRM render device found in /dev/dri/'',
                    ''  GPU drivers may not be loaded. Check that drm and your GPU kernel module are loaded.''])"

definition closingLines :: "string list" where
  "closingLines =
     [[],
      ''System setup complete. You may need to log out and back in for group changes to take effect.'',
      []] @ startHint"

text \<open>The body of \<^verbatim>\<open>setupSystem\<close> up to the slice \<^verbatim>\<open>logs\<close>, and the action.\<close>

definition setupSystemRun :: "'r runner \<Rightarrow> 'r \<Rightarrow> world \<Rightarrow> ('r \<times> event list) \<times> world \<times> string list" where
  "setupSystemRun R r w =
     (let st1 = foldl (serviceStep R) ((r, []), []) serviceSteps;
          st2 = groupStep R w st1;
          st3 = kldStep R st2;
          st4 = persistStep R st3
      in case profileStep w (snd st4) of
           (w', lg) \<Rightarrow> (fst st4, w', renderStep w' lg @ closingLines))"

definition setupSystem :: "'r runner \<Rightarrow> 'r \<Rightarrow> world \<Rightarrow> ('r \<times> event list) \<times> world \<times> statusMsg" where
  "setupSystem R r w =
     (case setupSystemRun R r w of
        (s, w', lg) \<Rightarrow> (s, w', \<lparr> status = Join lg nl, err = None \<rparr>))"

text \<open>A step fails hard when its command fails and the output has no benign
  substring (\<open>benign\<close> lists them).\<close>

definition hardFailure :: "string list \<Rightarrow> event \<Rightarrow> bool" where
  "hardFailure benign e = (\<not> snd (snd e) \<and> \<not> (\<exists>b \<in> set benign. Contains (fst (snd e)) b))"


text \<open>The events and the slice \<^verbatim>\<open>logs\<close> of \<^verbatim>\<open>setupSystem\<close>.\<close>

definition setupEvents :: "'r runner \<Rightarrow> 'r \<Rightarrow> world \<Rightarrow> event list" where
  "setupEvents R r w = snd (fst (setupSystemRun R r w))"

definition setupLogs :: "'r runner \<Rightarrow> 'r \<Rightarrow> world \<Rightarrow> string list" where
  "setupLogs R r w = snd (snd (setupSystemRun R r w))"

text \<open>An example of a runner: enabling dbus fails for good, starting dbus finds it
  running, every other command succeeds.\<close>

definition setupRunner :: "unit runner" where
  "setupRunner r argv =
     (if argv = [''sudo'', ''sysrc'', ''dbus_enable=YES''] then
        ((''sysrc: /etc/rc.conf: Permission denied'', False), r)
      else if argv = [''sudo'', ''service'', ''dbus'', ''start''] then
        ((''dbus already running? (pid 1234).'', False), r)
      else (([], True), r))"

section \<open>Example worlds\<close>

text \<open>
  A world with an empty file system in which nothing fails, for the user 1001 with the
  umask \<^verbatim>\<open>022\<close>; a regular file and a directory of this user; and the same world with
  the directories of the user, a template next to the executable, an older
  configuration file in place, a second name \<^verbatim>\<open>niri.kdl\<close> for that file, and another
  file.
\<close>

definition regular :: "string \<Rightarrow> node" where
  "regular d = \<lparr> isDir = False, content = d, uid = 1001, perm = 420 \<rparr>"

definition directory :: node where
  "directory = \<lparr> isDir = True, content = [], uid = 1001, perm = 493 \<rparr>"

definition exampleWorld :: world where
  "exampleWorld =
     \<lparr> paths = Map.empty, inodes = (\<lambda>i. regular []), nextIno = 0,
       statFails = Map.empty, readFails = Map.empty,
       writeFails = Map.empty, mkdirFails = Map.empty,
       environ = [''USER'' \<mapsto> ''alice''], euid = 1001, umask = 18,
       home = Inr ''/home/alice'', exePath = Inr ''/home/alice/NiriSetup/NiriSetup'',
       cwd = ''/home/alice'', sysStat_t = True,
       devDri = Inr [''card0'', ''renderD129'', ''renderD128''] \<rparr>"




text \<open>The world with something at the path of the runtime directory: a regular file
  of the user, and a directory of the user 0.\<close>

definition ownFileWorld :: world where
  "ownFileWorld =
     exampleWorld\<lparr>paths := [''/tmp/1001-runtime-dir'' \<mapsto> 0],
       inodes := (\<lambda>i. regular ''x''), nextIno := 1\<rparr>"

definition foreignDirWorld :: world where
  "foreignDirWorld =
     exampleWorld\<lparr>paths := [''/tmp/1001-runtime-dir'' \<mapsto> 0],
       inodes := (\<lambda>i. directory\<lparr>uid := 0, perm := 511\<rparr>), nextIno := 1\<rparr>"

text \<open>The world in which no directory can be made at the path of the runtime
  directory.\<close>

definition noMkdirWorld :: world where
  "noMkdirWorld =
     exampleWorld\<lparr>mkdirFails :=
       [''/tmp/1001-runtime-dir'' \<mapsto> ''mkdir /tmp/1001-runtime-dir: read-only file system'']\<rparr>"
section \<open>Properties of the strings\<close>

lemma HasPrefix_append: "HasPrefix (p @ s) p"
  by (induction p) simp_all

lemma HasPrefix_append3: "HasPrefix (a @ p @ b @ x) (a @ p @ b)"
  using HasPrefix_append [of "a @ p @ b" x] by simp

lemma HasPrefix_appendI: "HasPrefix a sub \<Longrightarrow> HasPrefix (a @ b) sub"
  by (induction a sub rule: HasPrefix.induct) simp_all

lemma Contains_append_left: "Contains a sub \<Longrightarrow> Contains (a @ b) sub"
proof (induction a)
  case Nil
  then show ?case by (cases b) simp_all
next
  case (Cons c cs)
  then show ?case using HasPrefix_appendI [of "c # cs" sub b] by auto
qed

lemma Contains_append_right: "Contains b sub \<Longrightarrow> Contains (a @ b) sub"
  by (induction a) simp_all

lemma Contains_self: "Contains x x"
proof (cases x)
  case Nil
  then show ?thesis by simp
next
  case (Cons c cs)
  with HasPrefix_append [of x "[]"] show ?thesis by simp
qed

lemma Contains_Join: "p \<in> set xs \<Longrightarrow> Contains (Join xs sep) p"
proof (induction xs sep rule: Join.induct)
  case (1 sep)
  then show ?case by simp
next
  case (2 x sep)
  then show ?case by (simp add: Contains_self)
next
  case (3 x y ys sep)
  show ?case
  proof (cases "p = x")
    case True
    then show ?thesis using Contains_append_left [OF Contains_self, of x] by simp
  next
    case False
    with 3 have "Contains (Join (y # ys) sep) p" by simp
    then have "Contains (x @ sep @ Join (y # ys) sep) p"
      by (intro Contains_append_right)
    then show ?thesis by simp
  qed
qed


lemma Contains_Join_part: "x \<in> set xs \<Longrightarrow> Contains x p \<Longrightarrow> Contains (Join xs sep) p"
proof (induction xs sep rule: Join.induct)
  case (1 sep)
  then show ?case by simp
next
  case (2 y sep)
  then show ?case by simp
next
  case (3 y z ys sep)
  show ?case
  proof (cases "x = y")
    case True
    with 3 show ?thesis using Contains_append_left [of y p] by simp
  next
    case False
    with 3 have "Contains (Join (z # ys) sep) p" by simp
    then have "Contains (y @ sep @ Join (z # ys) sep) p"
      by (intro Contains_append_right)
    then show ?thesis by simp
  qed
qed

text \<open>The decimal digits of a number stand for the number.\<close>

lemma digit_value: "d < 10 \<Longrightarrow> of_char (digit d) - 48 = d"
proof -
  assume "d < 10"
  then have "d \<in> {0, 1, 2, 3, 4, 5, 6, 7, 8, 9}" by auto
  then show ?thesis by (auto simp: digit_def)
qed

lemma decimalValue_snoc: "decimalValue (s @ [c]) = 10 * decimalValue s + (of_char c - 48)"
  by (simp add: decimalValue_def)

lemma decimalValue_decimal: "decimalValue (decimal n) = n"
proof (induction n rule: decimal.induct)
  case (1 n)
  show ?case
  proof (cases "n < 10")
    case True
    then show ?thesis
      by (subst decimal.simps) (simp add: decimalValue_def digit_value)
  next
    case False
    have "n mod 10 < 10" by simp
    with False 1 show ?thesis
      by (subst decimal.simps) (simp add: decimalValue_snoc digit_value del: of_char_mod_256)
  qed
qed
section \<open>Properties of the menu\<close>

lemma dispatch_cursor: "cursor (fst (dispatch m)) = cursor m"
  by (simp add: dispatch_def)

lemma dispatch_choices: "choices (fst (dispatch m)) = choices m"
  by (simp add: dispatch_def)

lemma onStatus_cursor: "cursor (onStatus m s) = cursor m"
  by (simp add: onStatus_def Let_def)

lemma onStatus_choices: "choices (onStatus m s) = choices m"
  by (simp add: onStatus_def Let_def)

lemma menuKey_inv:
  assumes "cursor_inv m"
  shows "\<exists>m' c. menuKey m k = Inr (m', c) \<and> cursor_inv m' \<and> choices m' = choices m"
proof -
  obtain d c where d: "dispatch (m\<lparr>selected := choices m ! nat (cursor m), isProcessing := True\<rparr>) = (d, c)"
    by (cases "dispatch (m\<lparr>selected := choices m ! nat (cursor m), isProcessing := True\<rparr>)")
  have "cursor d = cursor m" "choices d = choices m"
    using dispatch_cursor [of "m\<lparr>selected := choices m ! nat (cursor m), isProcessing := True\<rparr>"]
          dispatch_choices [of "m\<lparr>selected := choices m ! nat (cursor m), isProcessing := True\<rparr>"]
    by (simp_all add: d)
  with assms d show ?thesis
    by (auto simp: menuKey_def cursor_inv_def)
qed

lemma Update_inv:
  assumes "cursor_inv m"
  shows "\<exists>m' c. Update m x = Inr (m', c) \<and> cursor_inv m' \<and> choices m' = choices m"
proof (cases x)
  case (KeyMsg k)
  with assms menuKey_inv [OF assms, of k] show ?thesis
    by (cases "state m") auto
next
  case (StatusMsg s)
  with assms show ?thesis
    by (simp add: cursor_inv_def onStatus_cursor onStatus_choices)
next
  case OtherMsg
  with assms show ?thesis by simp
qed

lemma run_inv:
  "cursor_inv m \<Longrightarrow> \<exists>m' cs. run m xs = Inr (m', cs) \<and> cursor_inv m' \<and> choices m' = choices m"
proof (induction xs arbitrary: m)
  case Nil
  then show ?case by simp
next
  case (Cons x xs)
  from Update_inv [OF Cons.prems, of x] obtain m1 c
    where u: "Update m x = Inr (m1, c)" "cursor_inv m1" "choices m1 = choices m"
    by blast
  from Cons.IH [OF u(2)] obtain m2 cs
    where r: "run m1 xs = Inr (m2, cs)" "cursor_inv m2" "choices m2 = choices m1"
    by blast
  from u r show ?case by simp
qed

lemma initialModel_inv: "cursor_inv initialModel"
  by (simp add: cursor_inv_def initialModel_def)

lemma run_busy_keys:
  "busy m \<Longrightarrow> \<forall>x \<in> set xs. \<not> isStatus x \<Longrightarrow> run m xs = Inr (m, replicate (length xs) NoCmd)"
proof (induction xs)
  case Nil
  then show ?case by simp
next
  case (Cons x xs)
  from Cons.prems have "Update m x = Inr (m, NoCmd)"
    by (cases x) (auto simp: busy_def isStatus_def)
  with Cons show ?case by simp
qed


lemma onStatus_success:
  assumes "err s = None"
  shows "state m = installView \<Longrightarrow> state (onStatus m s) = menuView \<and> logs (onStatus m s) = []"
    and "state m = actionView \<Longrightarrow>
           state (onStatus m s) = menuView \<and> logs (onStatus m s) = logs m @ [status s]"
  using assms by (simp_all add: onStatus_def Let_def)

lemma onStatus_failure:
  assumes "err s \<noteq> None"
  shows "onStatus m s = m\<lparr>logs := logs m @ [status s], isProcessing := False\<rparr>"
  using assms by (auto simp: onStatus_def Let_def)

text \<open>
  C3. Every completion message, also one that carries a failure, is to bring the menu
  back. Followed from the initial model: the cursor is moved to "Validate Config", the
  action is dispatched with enter, and its completion message arrives with an error.
  The update leaves the state at the action view, with the message of the dispatch
  still shown; only the log buffer has the failure text.
\<close>

theorem failed_result_leaves_action_view:
  "(case run initialModel
           [KeyMsg ''down'', KeyMsg ''down'', KeyMsg ''down'', KeyMsg ''enter'',
            StatusMsg \<lparr> status = ''Validation failed: no such file'',
                        err = Some (Err ''exit status 1'') \<rparr>] of
      Inl p \<Rightarrow> False
    | Inr (m, cs) \<Rightarrow>
        state m = actionView \<and> actionMsg m = ''Validating Niri config...'' \<and>
        logs m = [''Validation failed: no such file''] \<and>
        cs = [NoCmd, NoCmd, NoCmd, ValidateNiriConfigCmd, NoCmd])"
  by (simp add: initialModel_def menuKey_def dispatch_def onStatus_def Let_def)

text \<open>
  C8. In the menu the up key takes one from the cursor only above 0 and the down key
  adds one only below the last index; a cursor within \<open>0 .. len(choices) - 1\<close> stays
  within these bounds through every sequence of messages, none of which panics.
\<close>

theorem cursor_saturates:
  assumes "cursor_inv m"
  shows "(state m = menuView \<longrightarrow>
            Update m (KeyMsg ''up'') =
              Inr (m\<lparr>cursor := (if cursor m > 0 then cursor m - 1 else cursor m)\<rparr>, NoCmd) \<and>
            Update m (KeyMsg ''down'') =
              Inr (m\<lparr>cursor := (if cursor m < int (length (choices m)) - 1
                                 then cursor m + 1 else cursor m)\<rparr>, NoCmd)) \<and>
         (\<exists>m' c. Update m x = Inr (m', c) \<and> cursor_inv m') \<and>
         (\<exists>m' cs. run m xs = Inr (m', cs) \<and> cursor_inv m')"
proof -
  have "state m = menuView \<longrightarrow>
          Update m (KeyMsg ''up'') =
            Inr (m\<lparr>cursor := (if cursor m > 0 then cursor m - 1 else cursor m)\<rparr>, NoCmd) \<and>
          Update m (KeyMsg ''down'') =
            Inr (m\<lparr>cursor := (if cursor m < int (length (choices m)) - 1
                               then cursor m + 1 else cursor m)\<rparr>, NoCmd)"
    by (simp add: menuKey_def)
  moreover from Update_inv [OF assms, of x] have "\<exists>m' c. Update m x = Inr (m', c) \<and> cursor_inv m'"
    by blast
  moreover from run_inv [OF assms, of xs] have "\<exists>m' cs. run m xs = Inr (m', cs) \<and> cursor_inv m'"
    by blast
  ultimately show ?thesis by blast
qed

theorem cursor_saturates_witness:
  "cursor_inv initialModel \<and>
   Update initialModel (KeyMsg ''up'') = Inr (initialModel, NoCmd) \<and>
   (\<exists>m' cs. run initialModel (replicate 9 (KeyMsg ''down'')) = Inr (m', cs) \<and> cursor_inv m')"
proof -
  have st: "state initialModel = menuView" and cu: "cursor initialModel = 0"
    by (simp_all add: initialModel_def)
  from cursor_saturates [OF initialModel_inv, of OtherMsg "replicate 9 (KeyMsg ''down'')"] st cu
  have "Update initialModel (KeyMsg ''up'') = Inr (initialModel, NoCmd)"
    and "\<exists>m' cs. run initialModel (replicate 9 (KeyMsg ''down'')) = Inr (m', cs) \<and> cursor_inv m'"
    by simp_all
  with initialModel_inv show ?thesis by blast
qed

text \<open>
  C9. In the installing view and in the action view a key message leaves the whole
  model as it is (so \<open>cursor\<close>, \<open>selected\<close> and \<open>state\<close> too) and gives no command.
\<close>

theorem busy_ignores_keys:
  "busy m \<Longrightarrow> Update m (KeyMsg k) = Inr (m, NoCmd)"
  by (auto simp: busy_def)

theorem busy_ignores_keys_witness:
  "busy (initialModel\<lparr>state := installView\<rparr>) \<and>
   Update (initialModel\<lparr>state := installView\<rparr>) (KeyMsg ''q'') =
     Inr (initialModel\<lparr>state := installView\<rparr>, NoCmd)"
proof -
  have b: "busy (initialModel\<lparr>state := installView\<rparr>)"
    by (simp add: busy_def)
  from b busy_ignores_keys [OF b, of "''q''"] show ?thesis by (rule conjI)
qed

text \<open>
  C10. A completion message with an error, received in the installing view or in the
  action view, leaves the state in that view; from the model it gives, every sequence
  of key messages (the quit keys among them) gives the same model back and no command
  at all, so neither the menu nor \<^verbatim>\<open>tea.Quit\<close> nor another action is reached.
\<close>

theorem failed_result_traps_busy:
  assumes "busy m" and "err s \<noteq> None"
  shows "\<exists>m'. Update m (StatusMsg s) = Inr (m', NoCmd) \<and> state m' = state m \<and> busy m' \<and>
           (\<forall>ks. run m' (map KeyMsg ks) = Inr (m', replicate (length ks) NoCmd))"
proof -
  let ?m' = "onStatus m s"
  from assms(2) have eq: "?m' = m\<lparr>logs := logs m @ [status s], isProcessing := False\<rparr>"
    by (rule onStatus_failure)
  then have st: "state ?m' = state m" by simp
  with assms(1) have b: "busy ?m'" by (simp add: busy_def)
  have "run ?m' (map KeyMsg ks) = Inr (?m', replicate (length ks) NoCmd)" for ks
    using run_busy_keys [OF b, of "map KeyMsg ks"] by (simp add: isStatus_def)
  with st b show ?thesis by simp
qed

theorem failed_result_traps_busy_witness:
  "busy (initialModel\<lparr>state := installView\<rparr>) \<and>
   err \<lparr> status = ''Failed'', err = Some (Err ''1 packages failed to install'') \<rparr> \<noteq> None \<and>
   (\<exists>m'. Update (initialModel\<lparr>state := installView\<rparr>)
            (StatusMsg \<lparr> status = ''Failed'', err = Some (Err ''1 packages failed to install'') \<rparr>)
            = Inr (m', NoCmd) \<and>
          state m' = installView \<and>
          run m' (map KeyMsg [''q'', ''ctrl+c'', ''enter'']) = Inr (m', [NoCmd, NoCmd, NoCmd]))"
proof -
  let ?m = "initialModel\<lparr>state := installView\<rparr>"
  let ?s = "\<lparr> status = ''Failed'', err = Some (Err ''1 packages failed to install'') \<rparr>"
  have b: "busy ?m" by (simp add: busy_def)
  have e: "err ?s \<noteq> None" by simp
  from failed_result_traps_busy [OF b e] obtain m'
    where u: "Update ?m (StatusMsg ?s) = Inr (m', NoCmd)" and st: "state m' = state ?m"
      and k: "\<forall>ks. run m' (map KeyMsg ks) = Inr (m', replicate (length ks) NoCmd)"
    by blast
  from k have "run m' (map KeyMsg [''q'', ''ctrl+c'', ''enter'']) =
      Inr (m', replicate (length [''q'', ''ctrl+c'', ''enter'']) NoCmd)"
    by (rule spec)
  then have "run m' (map KeyMsg [''q'', ''ctrl+c'', ''enter'']) = Inr (m', [NoCmd, NoCmd, NoCmd])"
    by (simp only: list.size replicate.simps One_nat_def add_Suc_right add_0_right)
  moreover from st have "state m' = installView" by simp
  ultimately show ?thesis using b e u by blast
qed

section \<open>Properties of the Install action\<close>

lemma replay_append:
  "replay R r (t @ u) = (case replay R r t of None \<Rightarrow> None | Some r1 \<Rightarrow> replay R r1 u)"
  by (induction t arbitrary: r) (auto split: prod.splits)

lemma exec_replay:
  assumes "replay R r0 (snd s) = Some (fst s)" and "exec R s argv = (res, s')"
  shows "replay R r0 (snd s') = Some (fst s')"
  using assms by (auto simp: exec_def replay_append split: prod.splits)

lemma installStep_chunk:
  "\<exists>r' c l f. installStep R ((r, t), lg, fl) p = ((r', t @ c), lg @ [l], fl @ f) \<and>
      chunk p c l f \<and> replay R r c = Some r'"
proof -
  obtain out ok r1 where i: "R r (infoCmd p) = ((out, ok), r1)"
    by (metis surj_pair)
  obtain out2 ok2 r2 where j: "R r1 (installCmd p) = ((out2, ok2), r2)"
    by (metis surj_pair)
  show ?thesis
    by (cases ok; cases ok2)
       (simp_all add: installStep_def isPackageInstalled_def exec_def i j chunk_def)
qed

lemma cmd_facts:
  "infoCmd p = infoCmd q \<longleftrightarrow> p = q" "installCmd p = installCmd q \<longleftrightarrow> p = q"
  "infoCmd p \<noteq> installCmd q" "installCmd q \<noteq> infoCmd p"
  by (simp_all add: infoCmd_def installCmd_def)

lemma chunk_facts1:
  assumes "chunk p c l f"
  shows "map fst (filter isInfo c) = [infoCmd p]"
  using assms unfolding chunk_def by (auto simp: isInfo_def infoCmd_def installCmd_def)

lemma chunk_facts2:
  assumes "chunk p c l f"
  shows "\<forall>e \<in> set c. fst e = infoCmd p \<or> fst e = installCmd p"
  using assms unfolding chunk_def by auto

lemma chunk_facts3:
  assumes "chunk p c l f"
  shows "outcomeLine p l"
  using assms unfolding chunk_def outcomeLine_def
  by (auto simp: HasPrefix_append3 simp del: append.simps)

lemma chunk_facts4:
  assumes "chunk p c l f"
  shows "f = (if installFailed c p then [p] else [])"
  using assms unfolding chunk_def installFailed_def by (auto simp: cmd_facts)

lemma chunk_facts5:
  assumes "chunk p c l f"
  shows "foundPresent c p \<longrightarrow> \<not> installRan c p \<and> l = ''Already installed: '' @ p"
  using assms unfolding chunk_def foundPresent_def installRan_def by (auto simp: cmd_facts)

lemma chunk_facts6:
  assumes "chunk p c l f"
  shows "\<not> foundPresent c p \<longrightarrow> installRan c p"
  using assms unfolding chunk_def foundPresent_def installRan_def by (auto simp: cmd_facts)

lemma events_only:
  assumes "\<forall>e \<in> set c. \<exists>q \<in> set ps. fst e = infoCmd q \<or> fst e = installCmd q" and "p \<notin> set ps"
  shows "\<not> installFailed c p" and "\<not> installRan c p" and "\<not> foundPresent c p"
  using assms unfolding installFailed_def installRan_def foundPresent_def
  by (auto simp: cmd_facts)

lemma obs_append:
  "installFailed (c @ t) p \<longleftrightarrow> installFailed c p \<or> installFailed t p"
  "installRan (c @ t) p \<longleftrightarrow> installRan c p \<or> installRan t p"
  "foundPresent (c @ t) p \<longleftrightarrow> foundPresent c p \<or> foundPresent t p"
  unfolding installFailed_def installRan_def foundPresent_def by auto

lemma loopFacts_Cons:
  assumes c: "chunk p c l f" and a: "loopFacts ps t lg fl" and d: "p \<notin> set ps"
  shows "loopFacts (p # ps) (c @ t) (l # lg) (f @ fl)"
proof -
  from a have t_only: "\<forall>e \<in> set t. \<exists>q \<in> set ps. fst e = infoCmd q \<or> fst e = installCmd q"
    by (simp add: loopFacts_def)
  from chunk_facts2 [OF c] have c_only: "\<forall>e \<in> set c. \<exists>q \<in> set [p]. fst e = infoCmd q \<or> fst e = installCmd q"
    by simp
  note tp = events_only [OF t_only d]
  have cq: "\<not> installFailed c q \<and> \<not> installRan c q \<and> \<not> foundPresent c q" if "q \<in> set ps" for q
  proof -
    from that d have "q \<notin> set [p]" by auto
    from events_only [OF c_only this] show ?thesis by simp
  qed
  have 1: "map fst (filter isInfo (c @ t)) = map infoCmd (p # ps)"
    using chunk_facts1 [OF c] a by (simp add: loopFacts_def)
  have 2: "\<forall>e \<in> set (c @ t). \<exists>q \<in> set (p # ps). fst e = infoCmd q \<or> fst e = installCmd q"
    using chunk_facts2 [OF c] t_only by auto
  have 3: "list_all2 outcomeLine (p # ps) (l # lg)"
    using chunk_facts3 [OF c] a by (simp add: loopFacts_def)
  have "filter (installFailed (c @ t)) ps = filter (installFailed t) ps"
    by (rule filter_cong) (auto simp: obs_append cq)
  then have 4: "f @ fl = filter (installFailed (c @ t)) (p # ps)"
    using chunk_facts4 [OF c] a tp by (simp add: loopFacts_def obs_append)
  have 5: "\<forall>q \<in> set (p # ps). foundPresent (c @ t) q \<longrightarrow>
             \<not> installRan (c @ t) q \<and> ''Already installed: '' @ q \<in> set (l # lg)"
  proof
    fix q assume "q \<in> set (p # ps)"
    then consider "q = p" | "q \<in> set ps" by auto
    then show "foundPresent (c @ t) q \<longrightarrow>
             \<not> installRan (c @ t) q \<and> ''Already installed: '' @ q \<in> set (l # lg)"
    proof cases
      case 1
      with chunk_facts5 [OF c] tp show ?thesis by (simp add: obs_append)
    next
      case 2
      with cq [OF 2] a show ?thesis by (simp add: obs_append loopFacts_def)
    qed
  qed
  have 6: "\<forall>q \<in> set (p # ps). \<not> foundPresent (c @ t) q \<longrightarrow> installRan (c @ t) q"
  proof
    fix q assume "q \<in> set (p # ps)"
    then consider "q = p" | "q \<in> set ps" by auto
    then show "\<not> foundPresent (c @ t) q \<longrightarrow> installRan (c @ t) q"
    proof cases
      case 1
      with chunk_facts6 [OF c] show ?thesis by (simp add: obs_append)
    next
      case 2
      with a show ?thesis by (simp add: obs_append loopFacts_def)
    qed
  qed
  from 1 2 3 4 5 6 show ?thesis unfolding loopFacts_def by blast
qed

lemma loopAdds_facts:
  "loopAdds ps as \<Longrightarrow> distinct ps \<Longrightarrow>
     loopFacts ps (concat (map fst as)) (map (\<lambda>a. fst (snd a)) as) (concat (map (\<lambda>a. snd (snd a)) as))"
  unfolding loopAdds_def
proof (induction ps as rule: list_all2_induct)
  case Nil
  show ?case by (simp add: loopFacts_def)
next
  case (Cons p ps a as)
  then have "loopFacts ps (concat (map fst as)) (map (\<lambda>a. fst (snd a)) as) (concat (map (\<lambda>a. snd (snd a)) as))"
    and "p \<notin> set ps" by simp_all
  from loopFacts_Cons [OF Cons.hyps(1) this] show ?case by simp
qed

lemma installLoop_gen:
  "\<exists>r' as. foldl (installStep R) ((r, t), lg, fl) ps =
       ((r', t @ concat (map fst as)), lg @ map (\<lambda>a. fst (snd a)) as, fl @ concat (map (\<lambda>a. snd (snd a)) as)) \<and>
     loopAdds ps as \<and> replay R r (concat (map fst as)) = Some r'"
proof (induction ps arbitrary: r t lg fl)
  case Nil
  show ?case by (simp add: loopAdds_def)
next
  case (Cons p ps)
  from installStep_chunk [of R r t lg fl p] obtain r1 c l f
    where s: "installStep R ((r, t), lg, fl) p = ((r1, t @ c), lg @ [l], fl @ f)"
      and c: "chunk p c l f" and rp: "replay R r c = Some r1" by blast
  from Cons.IH [of r1 "t @ c" "lg @ [l]" "fl @ f"] obtain r' as
    where f: "foldl (installStep R) ((r1, t @ c), lg @ [l], fl @ f) ps =
               ((r', (t @ c) @ concat (map fst as)), (lg @ [l]) @ map (\<lambda>a. fst (snd a)) as,
                (fl @ f) @ concat (map (\<lambda>a. snd (snd a)) as))"
      and a: "loopAdds ps as" and rq: "replay R r1 (concat (map fst as)) = Some r'" by blast
  let ?as = "(c, l, f) # as"
  from c a have "loopAdds (p # ps) ?as" by (simp add: loopAdds_def)
  moreover from s f have "foldl (installStep R) ((r, t), lg, fl) (p # ps) =
      ((r', t @ concat (map fst ?as)), lg @ map (\<lambda>a. fst (snd a)) ?as, fl @ concat (map (\<lambda>a. snd (snd a)) ?as))"
    by simp
  moreover from rp rq have "replay R r (concat (map fst ?as)) = Some r'"
    by (simp add: replay_append)
  ultimately show ?case by blast
qed

lemma distinct_pkgs: "distinct pkgs"
  by (simp add: pkgs_def)

lemma installLoop_adds:
  "\<exists>as. loopAdds pkgs as \<and> installEvents R r = concat (map fst as) \<and>
     installLogs R r = map (\<lambda>a. fst (snd a)) as \<and>
     installFailedPkgs R r = concat (map (\<lambda>a. snd (snd a)) as) \<and>
     replay R r (installEvents R r) = Some (fst (fst (installLoop R r pkgs)))"
proof -
  from installLoop_gen [of R r "[]" "[]" "[]" pkgs] obtain r' as
    where "installLoop R r pkgs =
       ((r', concat (map fst as)), map (\<lambda>a. fst (snd a)) as, concat (map (\<lambda>a. snd (snd a)) as))"
      and "loopAdds pkgs as" and "replay R r (concat (map fst as)) = Some r'"
    by (auto simp: installLoop_def)
  then show ?thesis
    by (auto simp: installEvents_def installLogs_def installFailedPkgs_def)
qed

lemma installLoop_facts:
  "loopFacts pkgs (installEvents R r) (installLogs R r) (installFailedPkgs R r)"
  using installLoop_adds [of R r] loopAdds_facts [OF _ distinct_pkgs] by auto

lemma loopAdds_nth:
  "loopAdds ps as \<Longrightarrow> k < length ps \<Longrightarrow>
     chunk (ps ! k) (fst (as ! k)) (fst (snd (as ! k))) (snd (snd (as ! k)))"
  unfolding loopAdds_def by (drule list_all2_nthD) auto

lemma chunk_only:
  "chunk p c l f \<Longrightarrow> e \<in> set c \<Longrightarrow> fst e = infoCmd p \<or> fst e = installCmd p"
  using chunk_facts2 by blast

lemma concat_split:
  "j < length xs \<Longrightarrow> concat xs = concat (take j xs) @ xs ! j @ concat (drop (Suc j) xs)"
  by (metis concat.simps(2) concat_append id_take_nth_drop)

text \<open>In a run over distinct packages, an event of the package at \<open>i\<close> is in the part of
  the package at \<open>i\<close>.\<close>

lemma install_event_place:
  assumes a: "loopAdds ps as" and d: "distinct ps" and i: "i < length ps"
    and e: "e \<in> set (concat (map fst as))" and f: "fst e = installCmd (ps ! i)"
  shows "e \<in> set (fst (as ! i))"
proof -
  from a have len: "length as = length ps" by (simp add: loopAdds_def list_all2_lengthD)
  from e obtain c where "c \<in> set (map fst as)" and ec: "e \<in> set c" by auto
  then obtain k where k: "k < length as" and "c = fst (as ! k)"
    by (auto simp: in_set_conv_nth)
  with ec have ek: "e \<in> set (fst (as ! k))" by simp
  from k len have "k < length ps" by simp
  from loopAdds_nth [OF a this]
  have "chunk (ps ! k) (fst (as ! k)) (fst (snd (as ! k))) (snd (snd (as ! k)))" .
  from chunk_only [OF this ek] f have "ps ! k = ps ! i" by (auto simp: cmd_facts)
  with d i k len have "k = i" by (simp add: nth_eq_iff_index_eq)
  with ek show ?thesis by simp
qed

lemma summary_names: "p \<in> set fl \<Longrightarrow> Contains (failedSummary fl) p"
  unfolding failedSummary_def by (intro Contains_append_right Contains_Join)

lemma installNiri_eq:
  "installNiri R r =
     (fst (installLoop R r pkgs), installResult (installLogs R r) (installFailedPkgs R r))"
  by (simp add: installNiri_def installLogs_def installFailedPkgs_def split: prod.splits)

lemma onlyDbus_events_head:
  "take 5 (installEvents onlyDbus ()) =
     [(infoCmd ''drm-kmod'', '' pkg: No packages available'' @ [CHR 0x0A], False),
      (installCmd ''drm-kmod'', '' pkg: No packages available'' @ [CHR 0x0A], False),
      (infoCmd ''mesa-libs'', '' pkg: No packages available'' @ [CHR 0x0A], False),
      (installCmd ''mesa-libs'', '' pkg: No packages available'' @ [CHR 0x0A], False),
      (infoCmd ''mesa-dri'', '' pkg: No packages available'' @ [CHR 0x0A], False)]"
  by code_simp

lemma onlyDbus_first_two:
  "(installCmd ''drm-kmod'', '' pkg: No packages available'' @ [CHR 0x0A], False)
     \<in> set (installEvents onlyDbus ())"
  "(installCmd ''mesa-libs'', '' pkg: No packages available'' @ [CHR 0x0A], False)
     \<in> set (installEvents onlyDbus ())"
proof -
  have "(installCmd ''drm-kmod'', '' pkg: No packages available'' @ [CHR 0x0A], False)
          \<in> set (take 5 (installEvents onlyDbus ()))"
    and "(installCmd ''mesa-libs'', '' pkg: No packages available'' @ [CHR 0x0A], False)
          \<in> set (take 5 (installEvents onlyDbus ()))"
    by (simp_all only: onlyDbus_events_head) simp_all
  then show "(installCmd ''drm-kmod'', '' pkg: No packages available'' @ [CHR 0x0A], False)
     \<in> set (installEvents onlyDbus ())"
    and "(installCmd ''mesa-libs'', '' pkg: No packages available'' @ [CHR 0x0A], False)
     \<in> set (installEvents onlyDbus ())"
    by (blast dest: in_set_takeD)+
qed

lemma onlyDbus_present: "foundPresent (installEvents onlyDbus ()) ''dbus''"
  by code_simp

lemma onlyDbus_failed: "installFailed (installEvents onlyDbus ()) ''niri''"
  by code_simp

lemma onlyDbus_absent: "\<not> foundPresent (installEvents onlyDbus ()) ''niri''"
  by code_simp

lemma onlyDbus_log: "installLogs onlyDbus () ! 5 = ''Failed to install niri: pkg: No packages available''"
  by code_simp

lemma onlyDbus_status:
  "status (snd (installNiri onlyDbus ())) =
     ''Failed to install drm-kmod: pkg: No packages available'' @ [CHR 0x0A] @
     ''Failed to install mesa-libs: pkg: No packages available'' @ [CHR 0x0A] @
     ''Failed to install mesa-dri: pkg: No packages available'' @ [CHR 0x0A] @
     ''Failed to install consolekit2: pkg: No packages available'' @ [CHR 0x0A] @
     ''Already installed: dbus'' @ [CHR 0x0A] @
     ''Failed to install niri: pkg: No packages available'' @ [CHR 0x0A] @
     ''Failed to install xwayland-satellite: pkg: No packages available'' @ [CHR 0x0A] @
     ''Failed to install seatd: pkg: No packages available'' @ [CHR 0x0A] @
     ''Failed to install waybar: pkg: No packages available'' @ [CHR 0x0A] @
     ''Failed to install grim: pkg: No packages available'' @ [CHR 0x0A] @
     ''Failed to install jq: pkg: No packages available'' @ [CHR 0x0A] @
     ''Failed to install wofi: pkg: No packages available'' @ [CHR 0x0A] @
     ''Failed to install alacritty: pkg: No packages available'' @ [CHR 0x0A] @
     ''Failed to install pam_xdg: pkg: No packages available'' @ [CHR 0x0A] @
     ''Failed to install fuzzel: pkg: No packages available'' @ [CHR 0x0A] @
     ''Failed to install swaylock: pkg: No packages available'' @ [CHR 0x0A] @
     ''Failed to install foot: pkg: No packages available'' @ [CHR 0x0A] @
     ''Failed to install wlsunset: pkg: No packages available'' @ [CHR 0x0A] @
     ''Failed to install swaybg: pkg: No packages available'' @ [CHR 0x0A] @
     ''Failed to install mako: pkg: No packages available'' @ [CHR 0x0A] @
     ''Failed to install swayidle: pkg: No packages available'' @ [CHR 0x0A] @
     [CHR 0x0A] @
     ''Failed packages (20): drm-kmod, mesa-libs, mesa-dri, consolekit2, niri, xwayland-satellite, seatd, waybar, grim, jq, wofi, alacritty, pam_xdg, fuzzel, swaylock, foot, wlsunset, swaybg, mako, swayidle''"
  by code_simp

lemma onlyDbus_err:
  "err (snd (installNiri onlyDbus ())) = Some (Err ''20 packages failed to install'')"
  by code_simp

lemma installResult_eq:
  "installResult lg fl =
     \<lparr> status = Join (lg @ (if fl = [] then []
                             else [[CHR 0x0A] @ ''Failed packages ('' @ decimal (length fl)
                                     @ ''): '' @ Join fl '', ''])) [CHR 0x0A],
       err = (if fl = [] then None
              else Some (Err (decimal (length fl) @ '' packages failed to install''))) \<rparr>"
  by (simp add: installResult_def failedSummary_def nl_def)

text \<open>
  C1. In the Install action each package of the fixed list, in list order, adds to the
  events, to the log and to the failed packages in one of three ways: the presence
  check succeeds, no install command runs and the line is "Already installed"; or the
  presence check fails, the install command runs and fails, the line is "Failed to
  install" and the package is failed; or the presence check fails, the install
  command runs and succeeds and the line is "Successfully installed". The events are
  the answers of the runner. The status of the Result is these lines joined by line
  feeds, in list order, followed by the summary of the failed packages when there are
  some, and the Result carries an error exactly when some install command failed.
\<close>

theorem installNiri_outcomes:
  "pkgs = [''drm-kmod'', ''mesa-libs'', ''mesa-dri'', ''consolekit2'', ''dbus'', ''niri'',
           ''xwayland-satellite'', ''seatd'', ''waybar'', ''grim'', ''jq'', ''wofi'',
           ''alacritty'', ''pam_xdg'', ''fuzzel'', ''swaylock'', ''foot'', ''wlsunset'',
           ''swaybg'', ''mako'', ''swayidle''] \<and>
   (\<exists>as. length as = length pkgs \<and>
      installEvents R r = concat (map fst as) \<and>
      installLogs R r = map (\<lambda>a. fst (snd a)) as \<and>
      installFailedPkgs R r = concat (map (\<lambda>a. snd (snd a)) as) \<and>
      (\<forall>i < length pkgs.
         (\<exists>out. as ! i =
            ([([''pkg'', ''info'', pkgs ! i], out, True)],
             ''Already installed: '' @ pkgs ! i, [])) \<or>
         (\<exists>out out2. as ! i =
            ([([''pkg'', ''info'', pkgs ! i], out, False),
              ([''sudo'', ''pkg'', ''install'', ''-y'', pkgs ! i], out2, False)],
             ''Failed to install '' @ pkgs ! i @ '': '' @ TrimSpace out2, [pkgs ! i])) \<or>
         (\<exists>out out2. as ! i =
            ([([''pkg'', ''info'', pkgs ! i], out, False),
              ([''sudo'', ''pkg'', ''install'', ''-y'', pkgs ! i], out2, True)],
             ''Successfully installed '' @ pkgs ! i, [])))) \<and>
   replay R r (installEvents R r) = Some (fst (fst (installNiri R r))) \<and>
   snd (fst (installNiri R r)) = installEvents R r \<and>
   status (snd (installNiri R r)) =
     Join (installLogs R r @
           (if installFailedPkgs R r = [] then []
            else [[CHR 0x0A] @ ''Failed packages ('' @ decimal (length (installFailedPkgs R r))
                    @ ''): '' @ Join (installFailedPkgs R r) '', '']))
       [CHR 0x0A] \<and>
   err (snd (installNiri R r)) =
     (if installFailedPkgs R r = [] then None
      else Some (Err (decimal (length (installFailedPkgs R r))
                        @ '' packages failed to install''))) \<and>
   (\<forall>p \<in> set pkgs. foundPresent (installEvents R r) p \<longrightarrow>
        \<not> installRan (installEvents R r) p \<and>
        ''Already installed: '' @ p \<in> set (installLogs R r)) \<and>
   (\<forall>p \<in> set pkgs. \<not> foundPresent (installEvents R r) p \<longrightarrow>
        installRan (installEvents R r) p) \<and>
   (\<forall>p \<in> set pkgs. installFailed (installEvents R r) p \<longrightarrow>
        p \<in> set (installFailedPkgs R r) \<and>
        Contains (status (snd (installNiri R r))) (''Failed packages ('') \<and>
        Contains (failedSummary (installFailedPkgs R r)) p) \<and>
   installFailedPkgs R r = filter (installFailed (installEvents R r)) pkgs \<and>
   map fst (filter isInfo (installEvents R r)) = map infoCmd pkgs \<and>
   list_all2 outcomeLine pkgs (installLogs R r) \<and>
   (err (snd (installNiri R r)) \<noteq> None \<longleftrightarrow>
      (\<exists>p \<in> set pkgs. installFailed (installEvents R r) p))"
proof -
  let ?t = "installEvents R r" and ?lg = "installLogs R r" and ?fl = "installFailedPkgs R r"
  have 0: "pkgs = [''drm-kmod'', ''mesa-libs'', ''mesa-dri'', ''consolekit2'', ''dbus'', ''niri'',
           ''xwayland-satellite'', ''seatd'', ''waybar'', ''grim'', ''jq'', ''wofi'',
           ''alacritty'', ''pam_xdg'', ''fuzzel'', ''swaylock'', ''foot'', ''wlsunset'',
           ''swaybg'', ''mako'', ''swayidle'']"
    by (simp add: pkgs_def)
  from installLoop_adds [of R r] obtain as where a: "loopAdds pkgs as"
    and t: "?t = concat (map fst as)" and lg: "?lg = map (\<lambda>a. fst (snd a)) as"
    and fl': "?fl = concat (map (\<lambda>a. snd (snd a)) as)"
    and rp: "replay R r ?t = Some (fst (fst (installLoop R r pkgs)))" by blast
  from a have len: "length as = length pkgs" by (simp add: loopAdds_def list_all2_lengthD)
  have ch: "(\<exists>out. as ! i =
            ([([''pkg'', ''info'', pkgs ! i], out, True)],
             ''Already installed: '' @ pkgs ! i, [])) \<or>
         (\<exists>out out2. as ! i =
            ([([''pkg'', ''info'', pkgs ! i], out, False),
              ([''sudo'', ''pkg'', ''install'', ''-y'', pkgs ! i], out2, False)],
             ''Failed to install '' @ pkgs ! i @ '': '' @ TrimSpace out2, [pkgs ! i])) \<or>
         (\<exists>out out2. as ! i =
            ([([''pkg'', ''info'', pkgs ! i], out, False),
              ([''sudo'', ''pkg'', ''install'', ''-y'', pkgs ! i], out2, True)],
             ''Successfully installed '' @ pkgs ! i, []))" if "i < length pkgs" for i
  proof -
    obtain c l f where e: "as ! i = (c, l, f)" by (cases "as ! i")
    from loopAdds_nth [OF a that] e have "chunk (pkgs ! i) c l f" by simp
    then show ?thesis
      unfolding chunk_def infoCmd_def installCmd_def e by blast
  qed
  from len t lg fl' ch have 1: "\<exists>as. length as = length pkgs \<and>
      installEvents R r = concat (map fst as) \<and>
      installLogs R r = map (\<lambda>a. fst (snd a)) as \<and>
      installFailedPkgs R r = concat (map (\<lambda>a. snd (snd a)) as) \<and>
      (\<forall>i < length pkgs.
         (\<exists>out. as ! i =
            ([([''pkg'', ''info'', pkgs ! i], out, True)],
             ''Already installed: '' @ pkgs ! i, [])) \<or>
         (\<exists>out out2. as ! i =
            ([([''pkg'', ''info'', pkgs ! i], out, False),
              ([''sudo'', ''pkg'', ''install'', ''-y'', pkgs ! i], out2, False)],
             ''Failed to install '' @ pkgs ! i @ '': '' @ TrimSpace out2, [pkgs ! i])) \<or>
         (\<exists>out out2. as ! i =
            ([([''pkg'', ''info'', pkgs ! i], out, False),
              ([''sudo'', ''pkg'', ''install'', ''-y'', pkgs ! i], out2, True)],
             ''Successfully installed '' @ pkgs ! i, [])))"
    by blast
  have res: "snd (installNiri R r) = installResult ?lg ?fl"
    and st: "fst (installNiri R r) = fst (installLoop R r pkgs)"
    by (simp_all add: installNiri_eq)
  from rp st have 2: "replay R r ?t = Some (fst (fst (installNiri R r)))" by simp
  from st have evs: "snd (fst (installNiri R r)) = ?t" by (simp add: installEvents_def)
  have 3: "status (snd (installNiri R r)) =
     Join (?lg @ (if ?fl = [] then []
            else [[CHR 0x0A] @ ''Failed packages ('' @ decimal (length ?fl)
                    @ ''): '' @ Join ?fl '', ''])) [CHR 0x0A]"
    and 4: "err (snd (installNiri R r)) =
     (if ?fl = [] then None
      else Some (Err (decimal (length ?fl) @ '' packages failed to install'')))"
    by (simp_all add: res installResult_eq)
  note f = installLoop_facts [of R r, unfolded loopFacts_def]
  from f have fl: "?fl = filter (installFailed ?t) pkgs" by blast
  from f have 5: "\<forall>p \<in> set pkgs. foundPresent ?t p \<longrightarrow>
        \<not> installRan ?t p \<and> ''Already installed: '' @ p \<in> set ?lg" by blast
  from f have 6: "\<forall>p \<in> set pkgs. \<not> foundPresent ?t p \<longrightarrow> installRan ?t p" by blast
  have 7: "\<forall>p \<in> set pkgs. installFailed ?t p \<longrightarrow>
        p \<in> set ?fl \<and> Contains (status (snd (installNiri R r))) (''Failed packages ('') \<and>
        Contains (failedSummary ?fl) p"
  proof (intro ballI impI)
    fix p assume "p \<in> set pkgs" "installFailed ?t p"
    with fl have m: "p \<in> set ?fl" by simp
    then have ne: "?fl \<noteq> []" by auto
    have "Contains (failedSummary ?fl) ''Failed packages (''"
      unfolding failedSummary_def
      by (intro Contains_append_right Contains_append_left Contains_self)
    then have "Contains (Join (?lg @ [failedSummary ?fl]) nl) ''Failed packages (''"
      by (intro Contains_Join_part [of "failedSummary ?fl"]) simp_all
    with ne have "Contains (status (snd (installNiri R r))) ''Failed packages (''"
      by (simp add: res installResult_def)
    with m summary_names [OF m]
    show "p \<in> set ?fl \<and> Contains (status (snd (installNiri R r))) (''Failed packages ('') \<and>
        Contains (failedSummary ?fl) p" by simp
  qed
  from f have 8: "map fst (filter isInfo ?t) = map infoCmd pkgs" by blast
  from f have 9: "list_all2 outcomeLine pkgs ?lg" by blast
  have ne: "(?fl \<noteq> []) = (\<exists>p \<in> set pkgs. installFailed ?t p)"
    by (subst fl) (auto simp: filter_empty_conv)
  from 4 have "(err (snd (installNiri R r)) \<noteq> None) = (?fl \<noteq> [])" by simp
  with ne have 10: "err (snd (installNiri R r)) \<noteq> None \<longleftrightarrow> (\<exists>p \<in> set pkgs. installFailed ?t p)"
    by (simp only:)
  from 0 1 2 evs 3 4 5 6 7 fl 8 9 10 show ?thesis by (intro conjI)
qed

theorem installNiri_outcomes_witness:
  "''dbus'' \<in> set pkgs \<and> foundPresent (installEvents onlyDbus ()) ''dbus'' \<and>
   \<not> installRan (installEvents onlyDbus ()) ''dbus'' \<and>
   ''Already installed: dbus'' \<in> set (installLogs onlyDbus ()) \<and>
   ''niri'' \<in> set pkgs \<and> \<not> foundPresent (installEvents onlyDbus ()) ''niri'' \<and>
   installRan (installEvents onlyDbus ()) ''niri'' \<and>
   installFailed (installEvents onlyDbus ()) ''niri'' \<and>
   ''niri'' \<in> set (installFailedPkgs onlyDbus ()) \<and>
   (5::nat) < length pkgs \<and> pkgs ! 5 = ''niri'' \<and>
   installLogs onlyDbus () ! 5 = ''Failed to install niri: pkg: No packages available'' \<and>
   err (snd (installNiri onlyDbus ())) = Some (Err ''20 packages failed to install'') \<and>
   status (snd (installNiri onlyDbus ())) =
     ''Failed to install drm-kmod: pkg: No packages available'' @ [CHR 0x0A] @
     ''Failed to install mesa-libs: pkg: No packages available'' @ [CHR 0x0A] @
     ''Failed to install mesa-dri: pkg: No packages available'' @ [CHR 0x0A] @
     ''Failed to install consolekit2: pkg: No packages available'' @ [CHR 0x0A] @
     ''Already installed: dbus'' @ [CHR 0x0A] @
     ''Failed to install niri: pkg: No packages available'' @ [CHR 0x0A] @
     ''Failed to install xwayland-satellite: pkg: No packages available'' @ [CHR 0x0A] @
     ''Failed to install seatd: pkg: No packages available'' @ [CHR 0x0A] @
     ''Failed to install waybar: pkg: No packages available'' @ [CHR 0x0A] @
     ''Failed to install grim: pkg: No packages available'' @ [CHR 0x0A] @
     ''Failed to install jq: pkg: No packages available'' @ [CHR 0x0A] @
     ''Failed to install wofi: pkg: No packages available'' @ [CHR 0x0A] @
     ''Failed to install alacritty: pkg: No packages available'' @ [CHR 0x0A] @
     ''Failed to install pam_xdg: pkg: No packages available'' @ [CHR 0x0A] @
     ''Failed to install fuzzel: pkg: No packages available'' @ [CHR 0x0A] @
     ''Failed to install swaylock: pkg: No packages available'' @ [CHR 0x0A] @
     ''Failed to install foot: pkg: No packages available'' @ [CHR 0x0A] @
     ''Failed to install wlsunset: pkg: No packages available'' @ [CHR 0x0A] @
     ''Failed to install swaybg: pkg: No packages available'' @ [CHR 0x0A] @
     ''Failed to install mako: pkg: No packages available'' @ [CHR 0x0A] @
     ''Failed to install swayidle: pkg: No packages available'' @ [CHR 0x0A] @
     [CHR 0x0A] @
     ''Failed packages (20): drm-kmod, mesa-libs, mesa-dri, consolekit2, niri, xwayland-satellite, seatd, waybar, grim, jq, wofi, alacritty, pam_xdg, fuzzel, swaylock, foot, wlsunset, swaybg, mako, swayidle''"
proof -
  note t = installNiri_outcomes [of onlyDbus "()"]
  have m: "''dbus'' \<in> set pkgs" "''niri'' \<in> set pkgs" by (simp_all add: pkgs_def)
  have n: "(5::nat) < length pkgs" "pkgs ! 5 = ''niri''" by (simp_all add: pkgs_def)
  from t m(1) onlyDbus_present
  have 1: "\<not> installRan (installEvents onlyDbus ()) ''dbus''"
    and 2: "''Already installed: '' @ ''dbus'' \<in> set (installLogs onlyDbus ())"
    by blast+
  from 2 have 2: "''Already installed: dbus'' \<in> set (installLogs onlyDbus ())" by simp
  from t m(2) onlyDbus_absent
  have 3: "installRan (installEvents onlyDbus ()) ''niri''" by blast
  from t m(2) onlyDbus_failed
  have 4: "''niri'' \<in> set (installFailedPkgs onlyDbus ())" by blast
  from m(1) onlyDbus_present 1 2 m(2) onlyDbus_absent 3 onlyDbus_failed 4 n onlyDbus_log
    onlyDbus_err onlyDbus_status
  show ?thesis by - (intro conjI; assumption)
qed

text \<open>
  C5, as stated: the first failed install ends the action. With the runner \<open>onlyDbus\<close>
  the install of the first package fails, and the second package is checked and its
  install command run all the same.
\<close>

theorem install_not_aborted:
  "installFailed (installEvents onlyDbus ()) ''drm-kmod'' \<and>
   installRan (installEvents onlyDbus ()) ''mesa-libs'' \<and>
   take 4 (installEvents onlyDbus ()) =
     [(infoCmd ''drm-kmod'', '' pkg: No packages available'' @ [CHR 0x0A], False),
      (installCmd ''drm-kmod'', '' pkg: No packages available'' @ [CHR 0x0A], False),
      (infoCmd ''mesa-libs'', '' pkg: No packages available'' @ [CHR 0x0A], False),
      (installCmd ''mesa-libs'', '' pkg: No packages available'' @ [CHR 0x0A], False)]"
proof -
  have "take 4 (take 5 (installEvents onlyDbus ())) =
     [(infoCmd ''drm-kmod'', '' pkg: No packages available'' @ [CHR 0x0A], False),
      (installCmd ''drm-kmod'', '' pkg: No packages available'' @ [CHR 0x0A], False),
      (infoCmd ''mesa-libs'', '' pkg: No packages available'' @ [CHR 0x0A], False),
      (installCmd ''mesa-libs'', '' pkg: No packages available'' @ [CHR 0x0A], False)]"
    by (simp only: onlyDbus_events_head) simp
  then have t: "take 4 (installEvents onlyDbus ()) =
     [(infoCmd ''drm-kmod'', '' pkg: No packages available'' @ [CHR 0x0A], False),
      (installCmd ''drm-kmod'', '' pkg: No packages available'' @ [CHR 0x0A], False),
      (infoCmd ''mesa-libs'', '' pkg: No packages available'' @ [CHR 0x0A], False),
      (installCmd ''mesa-libs'', '' pkg: No packages available'' @ [CHR 0x0A], False)]"
    by simp
  from onlyDbus_first_two
  have "installFailed (installEvents onlyDbus ()) ''drm-kmod''"
    and "installRan (installEvents onlyDbus ()) ''mesa-libs''"
    by (force simp: installFailed_def installRan_def)+
  with t show ?thesis by blast
qed

text \<open>
  C5, amended: a failed install command does not end the Install action. When the
  install command of a package has failed, the events of every later package of the
  list follow it: the presence check of the later package runs and, when that check
  fails, its install command runs too, and the line of the later package is at its
  place in the log. The failed package is among the failed packages, the status ends
  with their summary and the error of the Result counts them.
\<close>

theorem install_continues_after_failure:
  assumes "i < j" and "j < length pkgs"
    and "installFailed (installEvents R r) (pkgs ! i)"
  shows "(\<exists>ta c tb out.
            installEvents R r = ta @ c @ tb \<and>
            ([''sudo'', ''pkg'', ''install'', ''-y'', pkgs ! i], out, False) \<in> set ta \<and>
            ((\<exists>o1. c = [([''pkg'', ''info'', pkgs ! j], o1, True)] \<and>
                   installLogs R r ! j = ''Already installed: '' @ pkgs ! j) \<or>
             (\<exists>o1 o2. c = [([''pkg'', ''info'', pkgs ! j], o1, False),
                            ([''sudo'', ''pkg'', ''install'', ''-y'', pkgs ! j], o2, False)] \<and>
                   installLogs R r ! j
                     = ''Failed to install '' @ pkgs ! j @ '': '' @ TrimSpace o2 \<and>
                   pkgs ! j \<in> set (installFailedPkgs R r)) \<or>
             (\<exists>o1 o2. c = [([''pkg'', ''info'', pkgs ! j], o1, False),
                            ([''sudo'', ''pkg'', ''install'', ''-y'', pkgs ! j], o2, True)] \<and>
                   installLogs R r ! j = ''Successfully installed '' @ pkgs ! j))) \<and>
         length (installLogs R r) = length pkgs \<and>
         replay R r (installEvents R r) = Some (fst (fst (installNiri R r))) \<and>
         snd (fst (installNiri R r)) = installEvents R r \<and>
         pkgs ! i \<in> set (installFailedPkgs R r) \<and>
         status (snd (installNiri R r)) =
           Join (installLogs R r @
                 [[CHR 0x0A] @ ''Failed packages ('' @ decimal (length (installFailedPkgs R r))
                    @ ''): '' @ Join (installFailedPkgs R r) '', ''])
             [CHR 0x0A] \<and>
         err (snd (installNiri R r)) =
           Some (Err (decimal (length (installFailedPkgs R r))
                        @ '' packages failed to install''))"
proof -
  let ?t = "installEvents R r" and ?lg = "installLogs R r" and ?fl = "installFailedPkgs R r"
  from installLoop_adds [of R r] obtain as where a: "loopAdds pkgs as"
    and t: "?t = concat (map fst as)" and lg: "?lg = map (\<lambda>a. fst (snd a)) as"
    and fl: "?fl = concat (map (\<lambda>a. snd (snd a)) as)"
    and rp: "replay R r ?t = Some (fst (fst (installLoop R r pkgs)))" by blast
  from a have len: "length as = length pkgs" by (simp add: loopAdds_def list_all2_lengthD)
  from assms have i: "i < length pkgs" by simp
  define ta where "ta = concat (take j (map fst as))"
  define tb where "tb = concat (drop (Suc j) (map fst as))"
  obtain c l f where e: "as ! j = (c, l, f)" by (cases "as ! j")
  from assms(2) len have "?t = ta @ map fst as ! j @ tb"
    unfolding t ta_def tb_def by (intro concat_split) simp
  with assms(2) len e have split: "?t = ta @ c @ tb" by simp
  from assms(3) obtain ev where ev: "ev \<in> set ?t" "fst ev = installCmd (pkgs ! i)"
    "\<not> snd (snd ev)" by (auto simp: installFailed_def)
  from install_event_place [OF a distinct_pkgs i ev(1) [unfolded t] ev(2)]
  have "ev \<in> set (fst (as ! i))" .
  moreover from assms(1,2) len have "as ! i \<in> set (take j as)"
    by (auto simp: in_set_conv_nth intro!: exI [of _ i])
  ultimately have "ev \<in> set ta" unfolding ta_def by (auto simp: take_map)
  moreover from ev(2,3)
  have "ev = ([''sudo'', ''pkg'', ''install'', ''-y'', pkgs ! i], fst (snd ev), False)"
    by (cases ev) (auto simp: installCmd_def)
  ultimately have inta:
    "([''sudo'', ''pkg'', ''install'', ''-y'', pkgs ! i], fst (snd ev), False) \<in> set ta"
    by simp
  from loopAdds_nth [OF a assms(2)] e have ch: "chunk (pkgs ! j) c l f" by simp
  from assms(2) len e lg have lj: "?lg ! j = l" by simp
  have fj: "f = [pkgs ! j] \<Longrightarrow> pkgs ! j \<in> set ?fl"
  proof -
    assume "f = [pkgs ! j]"
    with e have "pkgs ! j \<in> set (snd (snd (as ! j)))" by simp
    moreover from assms(2) len have "as ! j \<in> set as" by simp
    ultimately show ?thesis unfolding fl by auto
  qed
  from ch lj fj have later:
    "(\<exists>o1. c = [([''pkg'', ''info'', pkgs ! j], o1, True)] \<and>
                   ?lg ! j = ''Already installed: '' @ pkgs ! j) \<or>
             (\<exists>o1 o2. c = [([''pkg'', ''info'', pkgs ! j], o1, False),
                            ([''sudo'', ''pkg'', ''install'', ''-y'', pkgs ! j], o2, False)] \<and>
                   ?lg ! j = ''Failed to install '' @ pkgs ! j @ '': '' @ TrimSpace o2 \<and>
                   pkgs ! j \<in> set ?fl) \<or>
             (\<exists>o1 o2. c = [([''pkg'', ''info'', pkgs ! j], o1, False),
                            ([''sudo'', ''pkg'', ''install'', ''-y'', pkgs ! j], o2, True)] \<and>
                   ?lg ! j = ''Successfully installed '' @ pkgs ! j)"
    unfolding chunk_def infoCmd_def installCmd_def by blast
  from split inta later have 1: "\<exists>ta c tb out.
            ?t = ta @ c @ tb \<and>
            ([''sudo'', ''pkg'', ''install'', ''-y'', pkgs ! i], out, False) \<in> set ta \<and>
            ((\<exists>o1. c = [([''pkg'', ''info'', pkgs ! j], o1, True)] \<and>
                   ?lg ! j = ''Already installed: '' @ pkgs ! j) \<or>
             (\<exists>o1 o2. c = [([''pkg'', ''info'', pkgs ! j], o1, False),
                            ([''sudo'', ''pkg'', ''install'', ''-y'', pkgs ! j], o2, False)] \<and>
                   ?lg ! j = ''Failed to install '' @ pkgs ! j @ '': '' @ TrimSpace o2 \<and>
                   pkgs ! j \<in> set ?fl) \<or>
             (\<exists>o1 o2. c = [([''pkg'', ''info'', pkgs ! j], o1, False),
                            ([''sudo'', ''pkg'', ''install'', ''-y'', pkgs ! j], o2, True)] \<and>
                   ?lg ! j = ''Successfully installed '' @ pkgs ! j))"
    by blast
  from lg len have 2: "length ?lg = length pkgs" by simp
  have res: "snd (installNiri R r) = installResult ?lg ?fl"
    and st: "fst (installNiri R r) = fst (installLoop R r pkgs)"
    by (simp_all add: installNiri_eq)
  from rp st have 3: "replay R r ?t = Some (fst (fst (installNiri R r)))" by simp
  from st have 4: "snd (fst (installNiri R r)) = ?t" by (simp add: installEvents_def)
  from installLoop_facts [of R r, unfolded loopFacts_def]
  have "?fl = filter (installFailed ?t) pkgs" by blast
  with i assms(3) have 5: "pkgs ! i \<in> set ?fl" by simp
  then have ne: "?fl \<noteq> []" by auto
  from ne have 6: "status (snd (installNiri R r)) =
           Join (?lg @ [[CHR 0x0A] @ ''Failed packages ('' @ decimal (length ?fl)
                    @ ''): '' @ Join ?fl '', '']) [CHR 0x0A]"
    and 7: "err (snd (installNiri R r)) =
           Some (Err (decimal (length ?fl) @ '' packages failed to install''))"
    by (simp_all add: res installResult_eq)
  from 1 2 3 4 5 6 7 show ?thesis by (intro conjI)
qed

theorem install_continues_after_failure_witness:
  "(0::nat) < 1 \<and> (1::nat) < length pkgs \<and> pkgs ! 0 = ''drm-kmod'' \<and> pkgs ! 1 = ''mesa-libs'' \<and>
   installFailed (installEvents onlyDbus ()) (pkgs ! 0) \<and>
   (\<exists>ta c tb out.
      installEvents onlyDbus () = ta @ c @ tb \<and>
      ([''sudo'', ''pkg'', ''install'', ''-y'', ''drm-kmod''], out, False) \<in> set ta \<and>
      ((\<exists>o1. c = [([''pkg'', ''info'', ''mesa-libs''], o1, True)]) \<or>
       (\<exists>o1 o2. c = [([''pkg'', ''info'', ''mesa-libs''], o1, False),
                      ([''sudo'', ''pkg'', ''install'', ''-y'', ''mesa-libs''], o2, False)]) \<or>
       (\<exists>o1 o2. c = [([''pkg'', ''info'', ''mesa-libs''], o1, False),
                      ([''sudo'', ''pkg'', ''install'', ''-y'', ''mesa-libs''], o2, True)]))) \<and>
   ''drm-kmod'' \<in> set (installFailedPkgs onlyDbus ()) \<and>
   installLogs onlyDbus () ! 1 = ''Failed to install mesa-libs: pkg: No packages available'' \<and>
   err (snd (installNiri onlyDbus ())) = Some (Err ''20 packages failed to install'')"
proof -
  have n: "(0::nat) < 1" "(1::nat) < length pkgs" by (simp_all add: pkgs_def)
  have p: "pkgs ! 0 = ''drm-kmod''" "pkgs ! 1 = ''mesa-libs''" by (simp_all add: pkgs_def)
  from onlyDbus_first_two(1) have "installFailed (installEvents onlyDbus ()) ''drm-kmod''"
    by (force simp: installFailed_def)
  with p have f: "installFailed (installEvents onlyDbus ()) (pkgs ! 0)" by (simp only:)
  note t = install_continues_after_failure [OF n f, unfolded p]
  from t have 1: "\<exists>ta c tb out.
      installEvents onlyDbus () = ta @ c @ tb \<and>
      ([''sudo'', ''pkg'', ''install'', ''-y'', ''drm-kmod''], out, False) \<in> set ta \<and>
      ((\<exists>o1. c = [([''pkg'', ''info'', ''mesa-libs''], o1, True)]) \<or>
       (\<exists>o1 o2. c = [([''pkg'', ''info'', ''mesa-libs''], o1, False),
                      ([''sudo'', ''pkg'', ''install'', ''-y'', ''mesa-libs''], o2, False)]) \<or>
       (\<exists>o1 o2. c = [([''pkg'', ''info'', ''mesa-libs''], o1, False),
                      ([''sudo'', ''pkg'', ''install'', ''-y'', ''mesa-libs''], o2, True)]))"
    by blast
  from t have 2: "''drm-kmod'' \<in> set (installFailedPkgs onlyDbus ())" by blast
  have 3: "installLogs onlyDbus () ! 1 = ''Failed to install mesa-libs: pkg: No packages available''"
    by code_simp
  from n p f 1 2 3 onlyDbus_err show ?thesis by - (intro conjI; assumption)
qed

section \<open>Properties of the runtime directory\<close>

lemma owner_only: "(448 AND NOT m) AND (63 :: 32 word) = 0"
proof -
  have "(448 AND NOT m) AND (63 :: 32 word) = (448 AND 63) AND NOT m"
    by (simp add: ac_simps)
  then show ?thesis by simp
qed

lemma runtimeDirOf_1001: "runtimeDirOf 1001 = ''/tmp/1001-runtime-dir''"
  by code_simp

text \<open>
  C2, as stated: where no directory exists at the path, one is created. In the world
  \<open>ownFileWorld\<close> a regular file of the user is at the path: there is no directory
  there, and \<open>setupEnvironment\<close> returns normally with the file as it was and no
  directory made.
\<close>

theorem setupEnvironment_regular_file:
  "euid ownFileWorld = 1001 \<and>
   map_option isDir (nodeAt ownFileWorld ''/tmp/1001-runtime-dir'') = Some False \<and>
   setupEnvironment ownFileWorld
     = Inr (ownFileWorld\<lparr>environ := (environ ownFileWorld)
              (''XDG_RUNTIME_DIR'' \<mapsto> ''/tmp/1001-runtime-dir'')\<rparr>) \<and>
   map_option isDir
     (nodeAt (ownFileWorld\<lparr>environ := (environ ownFileWorld)
                (''XDG_RUNTIME_DIR'' \<mapsto> ''/tmp/1001-runtime-dir'')\<rparr>)
        ''/tmp/1001-runtime-dir'') = Some False"
proof -
  have 1: "euid ownFileWorld = 1001" by code_simp
  have 2: "map_option isDir (nodeAt ownFileWorld ''/tmp/1001-runtime-dir'') = Some False"
    by code_simp
  have 3: "setupEnvironment ownFileWorld
     = Inr (ownFileWorld\<lparr>environ := (environ ownFileWorld)
              (''XDG_RUNTIME_DIR'' \<mapsto> ''/tmp/1001-runtime-dir'')\<rparr>)"
    by (simp add: setupEnvironment_def Let_def runtimeDirOf_1001 os_Setenv_def os_Stat_def
        nodeAt_def Sys_Stat_t_def ownFileWorld_def exampleWorld_def regular_def)
  have 4: "map_option isDir
     (nodeAt (ownFileWorld\<lparr>environ := (environ ownFileWorld)
                (''XDG_RUNTIME_DIR'' \<mapsto> ''/tmp/1001-runtime-dir'')\<rparr>)
        ''/tmp/1001-runtime-dir'') = Some False"
    by code_simp
  from 1 2 3 4 show ?thesis by (intro conjI)
qed

text \<open>
  C2, amended: the path is \<^verbatim>\<open>/tmp/<euid>-runtime-dir\<close>, with the effective user in
  decimal, and \<^verbatim>\<open>XDG_RUNTIME_DIR\<close> is set to it in every case. Where nothing is at the
  path, a directory is made there, of the effective user, with the mode \<^verbatim>\<open>0700\<close> less
  the umask, so with no permission for the group or for others, and the function
  returns. Where something is at the path, a directory or not, owned by another user,
  the process ends with the diagnostic that names both users, the files as they were.
  Where something of the effective user is at the path, the function returns, the
  files as they were. A failure of \<^verbatim>\<open>os.Stat\<close> other than absence, an owner that
  cannot be read and a failure of \<^verbatim>\<open>os.Mkdir\<close> end the process too, the files as they
  were.
\<close>

theorem setupEnvironment_bootstrap:
  "(let p = ''/tmp/'' @ decimal (unat (euid w)) @ ''-runtime-dir'';
        w1 = w\<lparr>environ := (environ w)(''XDG_RUNTIME_DIR'' \<mapsto> p)\<rparr>
    in decimalValue (decimal (unat (euid w))) = unat (euid w) \<and>
       (statFails w p = None \<and> paths w p = None \<and> mkdirFails w p = None \<longrightarrow>
          setupEnvironment w =
            Inr (w1\<lparr>paths := (paths w)(p \<mapsto> nextIno w),
                    inodes := (inodes w)(nextIno w :=
                      \<lparr> isDir = True, content = [], uid = euid w,
                        perm = 448 AND NOT (umask w) \<rparr>),
                    nextIno := Suc (nextIno w)\<rparr>) \<and>
          (448 AND NOT (umask w)) AND (63 :: 32 word) = 0) \<and>
       (\<forall>i. statFails w p = None \<and> paths w p = Some i \<and> sysStat_t w \<and>
             uid (inodes w i) \<noteq> euid w \<longrightarrow>
          setupEnvironment w =
            Inl (''XDG_RUNTIME_DIR '' @ [CHR 0x27] @ p @ [CHR 0x27] @ '' is owned by UID ''
                   @ decimal (unat (uid (inodes w i))) @ '', not our UID ''
                   @ decimal (unat (euid w)), w1)) \<and>
       (\<forall>i. statFails w p = None \<and> paths w p = Some i \<and> sysStat_t w \<and>
             uid (inodes w i) = euid w \<longrightarrow>
          setupEnvironment w = Inr w1) \<and>
       (\<forall>i. statFails w p = None \<and> paths w p = Some i \<and> \<not> sysStat_t w \<longrightarrow>
          setupEnvironment w =
            Inl (''Failed to get ownership information of runtime directory'', w1)) \<and>
       (\<forall>e. statFails w p = Some e \<longrightarrow>
          setupEnvironment w = Inl (''Failed to stat runtime directory: '' @ e, w1)) \<and>
       (\<forall>e. statFails w p = None \<and> paths w p = None \<and> mkdirFails w p = Some e \<longrightarrow>
          setupEnvironment w = Inl (''Failed to create runtime directory: '' @ e, w1)))"
  unfolding Let_def
proof (intro conjI allI impI)
  show "decimalValue (decimal (unat (euid w))) = unat (euid w)"
    by (rule decimalValue_decimal)
  show "(448 AND NOT (umask w)) AND (63 :: 32 word) = 0" by (rule owner_only)
qed (simp_all add: setupEnvironment_def Let_def runtimeDirOf_def os_Setenv_def os_Stat_def
      os_Mkdir_def create_def newDir_def nodeAt_def Sys_Stat_t_def)

theorem setupEnvironment_bootstrap_witness:
  "''/tmp/'' @ decimal (unat (euid exampleWorld)) @ ''-runtime-dir'' = ''/tmp/1001-runtime-dir'' \<and>
   statFails exampleWorld ''/tmp/1001-runtime-dir'' = None \<and>
   paths exampleWorld ''/tmp/1001-runtime-dir'' = None \<and>
   mkdirFails exampleWorld ''/tmp/1001-runtime-dir'' = None \<and>
   setupEnvironment exampleWorld =
     Inr (exampleWorld\<lparr>environ := (environ exampleWorld)
                          (''XDG_RUNTIME_DIR'' \<mapsto> ''/tmp/1001-runtime-dir''),
            paths := (paths exampleWorld)(''/tmp/1001-runtime-dir'' \<mapsto> 0),
            inodes := (inodes exampleWorld)(0 :=
              \<lparr> isDir = True, content = [], uid = 1001, perm = 448 \<rparr>),
            nextIno := Suc 0\<rparr>) \<and>
   ''/tmp/'' @ decimal (unat (euid foreignDirWorld)) @ ''-runtime-dir'' = ''/tmp/1001-runtime-dir'' \<and>
   statFails foreignDirWorld ''/tmp/1001-runtime-dir'' = None \<and>
   paths foreignDirWorld ''/tmp/1001-runtime-dir'' = Some 0 \<and>
   isDir (inodes foreignDirWorld 0) \<and>
   sysStat_t foreignDirWorld \<and>
   uid (inodes foreignDirWorld 0) \<noteq> euid foreignDirWorld \<and>
   setupEnvironment foreignDirWorld =
     Inl (''XDG_RUNTIME_DIR '/tmp/1001-runtime-dir' is owned by UID 0, not our UID 1001'',
          foreignDirWorld\<lparr>environ := (environ foreignDirWorld)
                              (''XDG_RUNTIME_DIR'' \<mapsto> ''/tmp/1001-runtime-dir'')\<rparr>) \<and>
   ''/tmp/'' @ decimal (unat (euid ownFileWorld)) @ ''-runtime-dir'' = ''/tmp/1001-runtime-dir'' \<and>
   statFails ownFileWorld ''/tmp/1001-runtime-dir'' = None \<and>
   paths ownFileWorld ''/tmp/1001-runtime-dir'' = Some 0 \<and>
   sysStat_t ownFileWorld \<and>
   uid (inodes ownFileWorld 0) = euid ownFileWorld \<and>
   setupEnvironment ownFileWorld =
     Inr (ownFileWorld\<lparr>environ := (environ ownFileWorld)
                           (''XDG_RUNTIME_DIR'' \<mapsto> ''/tmp/1001-runtime-dir'')\<rparr>) \<and>
   ''/tmp/'' @ decimal (unat (euid noMkdirWorld)) @ ''-runtime-dir'' = ''/tmp/1001-runtime-dir'' \<and>
   statFails noMkdirWorld ''/tmp/1001-runtime-dir'' = None \<and>
   paths noMkdirWorld ''/tmp/1001-runtime-dir'' = None \<and>
   mkdirFails noMkdirWorld ''/tmp/1001-runtime-dir''
     = Some ''mkdir /tmp/1001-runtime-dir: read-only file system'' \<and>
   setupEnvironment noMkdirWorld =
     Inl (''Failed to create runtime directory: mkdir /tmp/1001-runtime-dir: read-only file system'',
          noMkdirWorld\<lparr>environ := (environ noMkdirWorld)
                           (''XDG_RUNTIME_DIR'' \<mapsto> ''/tmp/1001-runtime-dir'')\<rparr>)"
proof -
  have p: "''/tmp/'' @ decimal (unat (euid exampleWorld)) @ ''-runtime-dir'' = ''/tmp/1001-runtime-dir''"
    by code_simp
  have q: "''/tmp/'' @ decimal (unat (euid foreignDirWorld)) @ ''-runtime-dir'' = ''/tmp/1001-runtime-dir''"
    by code_simp
  have a: "statFails exampleWorld ''/tmp/1001-runtime-dir'' = None"
    "paths exampleWorld ''/tmp/1001-runtime-dir'' = None"
    "mkdirFails exampleWorld ''/tmp/1001-runtime-dir'' = None"
    by (simp_all add: exampleWorld_def)
  have b: "statFails foreignDirWorld ''/tmp/1001-runtime-dir'' = None"
    "paths foreignDirWorld ''/tmp/1001-runtime-dir'' = Some 0"
    "isDir (inodes foreignDirWorld 0)"
    "sysStat_t foreignDirWorld"
    "uid (inodes foreignDirWorld 0) \<noteq> euid foreignDirWorld"
    by (simp_all add: foreignDirWorld_def exampleWorld_def directory_def)
  have v: "euid exampleWorld = 1001" "umask exampleWorld = 18" "nextIno exampleWorld = 0"
    "uid (inodes foreignDirWorld 0) = 0" "euid foreignDirWorld = 1001"
    by (simp_all add: foreignDirWorld_def exampleWorld_def directory_def)
  have d: "decimal (unat (0 :: 32 word)) = ''0''" "decimal (unat (1001 :: 32 word)) = ''1001''"
    "(448 :: 32 word) AND NOT 18 = 448" "decimal 0 = ''0''" "decimal 1001 = ''1001''"
    by code_simp+
  note t1 = setupEnvironment_bootstrap [of exampleWorld, unfolded Let_def p]
  note t2 = setupEnvironment_bootstrap [of foreignDirWorld, unfolded Let_def q]
  from t1 a have 1: "setupEnvironment exampleWorld =
     Inr (exampleWorld\<lparr>environ := (environ exampleWorld)
                          (''XDG_RUNTIME_DIR'' \<mapsto> ''/tmp/1001-runtime-dir''),
            paths := (paths exampleWorld)(''/tmp/1001-runtime-dir'' \<mapsto> 0),
            inodes := (inodes exampleWorld)(0 :=
              \<lparr> isDir = True, content = [], uid = 1001, perm = 448 \<rparr>),
            nextIno := Suc 0\<rparr>)"
    by (simp add: v d)
  from t2 b have "setupEnvironment foreignDirWorld =
            Inl (''XDG_RUNTIME_DIR '' @ [CHR 0x27] @ ''/tmp/1001-runtime-dir'' @ [CHR 0x27]
                   @ '' is owned by UID ''
                   @ decimal (unat (uid (inodes foreignDirWorld 0))) @ '', not our UID ''
                   @ decimal (unat (euid foreignDirWorld)),
                  foreignDirWorld\<lparr>environ := (environ foreignDirWorld)
                              (''XDG_RUNTIME_DIR'' \<mapsto> ''/tmp/1001-runtime-dir'')\<rparr>)"
    by blast
  then have 2: "setupEnvironment foreignDirWorld =
     Inl (''XDG_RUNTIME_DIR '/tmp/1001-runtime-dir' is owned by UID 0, not our UID 1001'',
          foreignDirWorld\<lparr>environ := (environ foreignDirWorld)
                              (''XDG_RUNTIME_DIR'' \<mapsto> ''/tmp/1001-runtime-dir'')\<rparr>)"
    by (simp add: v d)
  have p3: "''/tmp/'' @ decimal (unat (euid ownFileWorld)) @ ''-runtime-dir'' = ''/tmp/1001-runtime-dir''"
    by code_simp
  have c: "statFails ownFileWorld ''/tmp/1001-runtime-dir'' = None"
    "paths ownFileWorld ''/tmp/1001-runtime-dir'' = Some 0"
    "sysStat_t ownFileWorld"
    "uid (inodes ownFileWorld 0) = euid ownFileWorld"
    by (simp_all add: ownFileWorld_def exampleWorld_def regular_def)
  note t3 = setupEnvironment_bootstrap [of ownFileWorld, unfolded Let_def p3]
  from t3 c have 3: "setupEnvironment ownFileWorld =
     Inr (ownFileWorld\<lparr>environ := (environ ownFileWorld)
                           (''XDG_RUNTIME_DIR'' \<mapsto> ''/tmp/1001-runtime-dir'')\<rparr>)"
    by blast
  have p4: "''/tmp/'' @ decimal (unat (euid noMkdirWorld)) @ ''-runtime-dir'' = ''/tmp/1001-runtime-dir''"
    by code_simp
  have m: "statFails noMkdirWorld ''/tmp/1001-runtime-dir'' = None"
    "paths noMkdirWorld ''/tmp/1001-runtime-dir'' = None"
    "mkdirFails noMkdirWorld ''/tmp/1001-runtime-dir''
       = Some ''mkdir /tmp/1001-runtime-dir: read-only file system''"
    by (simp_all add: noMkdirWorld_def exampleWorld_def)
  note t4 = setupEnvironment_bootstrap [of noMkdirWorld, unfolded Let_def p4]
  from t4 m have "setupEnvironment noMkdirWorld =
     Inl (''Failed to create runtime directory: ''
            @ ''mkdir /tmp/1001-runtime-dir: read-only file system'',
          noMkdirWorld\<lparr>environ := (environ noMkdirWorld)
                           (''XDG_RUNTIME_DIR'' \<mapsto> ''/tmp/1001-runtime-dir'')\<rparr>)"
    by blast
  then have 4: "setupEnvironment noMkdirWorld =
     Inl (''Failed to create runtime directory: mkdir /tmp/1001-runtime-dir: read-only file system'',
          noMkdirWorld\<lparr>environ := (environ noMkdirWorld)
                           (''XDG_RUNTIME_DIR'' \<mapsto> ''/tmp/1001-runtime-dir'')\<rparr>)"
    by simp
  from p a 1 q b 2 p3 c 3 p4 m 4 show ?thesis by - (intro conjI; assumption)
qed

section \<open>Properties of the Configure action\<close>



























section \<open>Properties of the Setup System action\<close>

text \<open>The entries of the log, by the outcome of the command.\<close>

lemma serviceLine_text:
  "serviceLine desc res =
     (if snd res then desc @ '': OK''
      else if Contains (fst res) ''already running'' then desc @ '': already running''
      else ''Warning: '' @ desc @ '': '' @ fst res)"
  by (cases res) (simp add: serviceLine_def)

lemma groupLine_text:
  "groupLine user res =
     (if snd res then ''Added user '' @ [CHR 0x27] @ user @ [CHR 0x27] @ '' to video group: OK''
      else ''Warning: Adding user to video group: '' @ fst res)"
  by (cases res) (simp add: groupLine_def)

lemma kldLine_text:
  "kldLine res =
     (if snd res then ''Loading DRM kernel module: OK''
      else if Contains (fst res) ''already loaded'' \<or> Contains (fst res) ''module already loaded''
      then ''Loading DRM kernel module: already loaded''
      else ''Warning: Loading DRM kernel module: '' @ fst res)"
  by (cases res) (simp add: kldLine_def)

lemma persistLine_text:
  "persistLine res =
     (if snd res then ''Persisting DRM module to boot: OK''
      else ''Warning: Persisting DRM module to boot: '' @ fst res)"
  by (cases res) (simp add: persistLine_def)

text \<open>The profile step and the render step add two entries each; the world and the
  content read do not depend on the log.\<close>

lemma xdgStep_log:
  "fst (xdgStep w lg) = fst (xdgStep w []) \<and>
   snd (snd (xdgStep w lg)) = snd (snd (xdgStep w [])) \<and>
   fst (snd (xdgStep w lg)) = lg @
     [if readFailed w (profilePathOf w)
         \<or> \<not> Contains (readString w (profilePathOf w)) ''XDG_RUNTIME_DIR''
      then (case os_OpenAppend w (profilePathOf w) 420 of
              Inl e \<Rightarrow> ''Warning: Could not write to '' @ profilePathOf w @ '': '' @ errText e
            | Inr f \<Rightarrow> ''Added XDG_RUNTIME_DIR to '' @ profilePathOf w @ '': OK'')
      else ''XDG_RUNTIME_DIR already in .profile: OK'']"
  by (simp add: xdgStep_def Let_def split: sum.splits)

lemma openAppend_home: "os_OpenAppend w p m = Inr f \<Longrightarrow> home f = home w"
  by (auto simp: os_OpenAppend_def create_def split: option.splits if_splits)

lemma writeString_home: "home (WriteString w p d) = home w"
  by (simp add: WriteString_def setContent_def split: option.splits)

lemma xdgStep_path: "profilePathOf (fst (xdgStep w lg)) = profilePathOf w"
  by (auto simp: xdgStep_def Let_def profilePathOf_def writeString_home openAppend_home
      split: sum.splits)

lemma libseatStep_log:
  "fst (libseatStep w s lg) = fst (libseatStep w s []) \<and>
   snd (libseatStep w s lg) = lg @
     [if \<not> Contains s ''LIBSEAT_BACKEND''
      then (case os_OpenAppend w (profilePathOf w) 420 of
              Inl e \<Rightarrow> ''Warning: Could not write to '' @ profilePathOf w @ '': '' @ errText e
            | Inr f \<Rightarrow> ''Added LIBSEAT_BACKEND=consolekit2 to .profile: OK'')
      else ''LIBSEAT_BACKEND already in .profile: OK'']"
  by (simp add: libseatStep_def Let_def split: sum.splits)

lemma profileStep_log:
  "fst (profileStep w lg) = fst (profileStep w []) \<and>
   snd (profileStep w lg) = lg @
     [if readFailed w (profilePathOf w)
         \<or> \<not> Contains (readString w (profilePathOf w)) ''XDG_RUNTIME_DIR''
      then (case os_OpenAppend w (profilePathOf w) 420 of
              Inl e \<Rightarrow> ''Warning: Could not write to '' @ profilePathOf w @ '': '' @ errText e
            | Inr f \<Rightarrow> ''Added XDG_RUNTIME_DIR to '' @ profilePathOf w @ '': OK'')
      else ''XDG_RUNTIME_DIR already in .profile: OK'',
      if \<not> Contains (snd (snd (xdgStep w []))) ''LIBSEAT_BACKEND''
      then (case os_OpenAppend (fst (xdgStep w [])) (profilePathOf w) 420 of
              Inl e \<Rightarrow> ''Warning: Could not write to '' @ profilePathOf w @ '': '' @ errText e
            | Inr f \<Rightarrow> ''Added LIBSEAT_BACKEND=consolekit2 to .profile: OK'')
      else ''LIBSEAT_BACKEND already in .profile: OK'']"
proof -
  let ?x1 = "if readFailed w (profilePathOf w)
         \<or> \<not> Contains (readString w (profilePathOf w)) ''XDG_RUNTIME_DIR''
      then (case os_OpenAppend w (profilePathOf w) 420 of
              Inl e \<Rightarrow> ''Warning: Could not write to '' @ profilePathOf w @ '': '' @ errText e
            | Inr f \<Rightarrow> ''Added XDG_RUNTIME_DIR to '' @ profilePathOf w @ '': OK'')
      else ''XDG_RUNTIME_DIR already in .profile: OK''"
  let ?w1 = "fst (xdgStep w [])" and ?s1 = "snd (snd (xdgStep w []))"
  let ?x2 = "if \<not> Contains ?s1 ''LIBSEAT_BACKEND''
      then (case os_OpenAppend ?w1 (profilePathOf w) 420 of
              Inl e \<Rightarrow> ''Warning: Could not write to '' @ profilePathOf w @ '': '' @ errText e
            | Inr f \<Rightarrow> ''Added LIBSEAT_BACKEND=consolekit2 to .profile: OK'')
      else ''LIBSEAT_BACKEND already in .profile: OK''"
  have x: "xdgStep w l = (?w1, l @ [?x1], ?s1)" for l
    using xdgStep_log [of w l] by (cases "xdgStep w l") simp
  have y: "libseatStep ?w1 ?s1 l = (fst (libseatStep ?w1 ?s1 []), l @ [?x2])" for l
    using libseatStep_log [of ?w1 ?s1 l] unfolding xdgStep_path [of w "[]"]
    by (cases "libseatStep ?w1 ?s1 l") simp
  have "profileStep w l = (fst (libseatStep ?w1 ?s1 []), l @ [?x1, ?x2])" for l
  proof -
    have "profileStep w l = libseatStep ?w1 ?s1 (l @ [?x1])"
      unfolding profileStep_def by (subst x) simp
    also have "\<dots> = (fst (libseatStep ?w1 ?s1 []), (l @ [?x1]) @ [?x2])" by (rule y)
    finally show ?thesis by simp
  qed
  then have "fst (profileStep w l) = fst (libseatStep ?w1 ?s1 [])"
    and "snd (profileStep w l) = l @ [?x1, ?x2]" for l
    by simp_all
  then show ?thesis by simp
qed

lemma renderStep_log:
  "renderStep w lg = lg @
     [if findRenderDevice w \<noteq> [] then ''Found DRM render device: '' @ findRenderDevice w
      else ''Warning: No DRM render device found in /dev/dri/'',
      if findRenderDevice w \<noteq> [] then
        (case os_Open w (findRenderDevice w) of
           Some e \<Rightarrow> ''Warning: Cannot access '' @ findRenderDevice w @ '': '' @ errText e
                       @ '' (check video group membership)''
         | None \<Rightarrow> ''DRM render device '' @ findRenderDevice w @ '' is accessible: OK'')
      else ''  GPU drivers may not be loaded. Check that drm and your GPU kernel module are loaded.'']"
  by (simp add: renderStep_def Let_def split: option.splits)

text \<open>The run of the commands: the events, the log after step 4 and the last state
  of the outside world.\<close>

lemma commands_shape:
  "\<exists>a b c d g k p r'.
     persistStep R (kldStep R (groupStep R w (foldl (serviceStep R) ((r, []), []) serviceSteps)))
       = ((r',
           [([''sudo'', ''sysrc'', ''dbus_enable=YES''], a),
            ([''sudo'', ''service'', ''dbus'', ''start''], b),
            ([''sudo'', ''sysrc'', ''seatd_enable=YES''], c),
            ([''sudo'', ''service'', ''seatd'', ''start''], d)]
           @ (if currentUserOf w = [] then []
              else [([''sudo'', ''pw'', ''groupmod'', ''video'', ''-m'', currentUserOf w], g)])
           @ [([''sudo'', ''kldload'', ''drm''], k), ([''sudo'', ''sysrc'', ''kld_list+=drm''], p)]),
          [serviceLine ''Enabling dbus service'' a, serviceLine ''Starting dbus service'' b,
           serviceLine ''Enabling seatd service'' c, serviceLine ''Starting seatd service'' d,
           (if currentUserOf w = [] then ''Warning: Could not determine current user for group setup''
            else groupLine (currentUserOf w) g),
           kldLine k, persistLine p]) \<and>
     replay R r
       ([([''sudo'', ''sysrc'', ''dbus_enable=YES''], a),
         ([''sudo'', ''service'', ''dbus'', ''start''], b),
         ([''sudo'', ''sysrc'', ''seatd_enable=YES''], c),
         ([''sudo'', ''service'', ''seatd'', ''start''], d)]
        @ (if currentUserOf w = [] then []
           else [([''sudo'', ''pw'', ''groupmod'', ''video'', ''-m'', currentUserOf w], g)])
        @ [([''sudo'', ''kldload'', ''drm''], k), ([''sudo'', ''sysrc'', ''kld_list+=drm''], p)])
       = Some r'"
proof -
  obtain ao ak r1 where a: "R r [''sudo'', ''sysrc'', ''dbus_enable=YES''] = ((ao, ak), r1)"
    by (metis surj_pair)
  obtain bo bk r2 where b: "R r1 [''sudo'', ''service'', ''dbus'', ''start''] = ((bo, bk), r2)"
    by (metis surj_pair)
  obtain co ck r3 where c: "R r2 [''sudo'', ''sysrc'', ''seatd_enable=YES''] = ((co, ck), r3)"
    by (metis surj_pair)
  obtain d_o dk r4 where d: "R r3 [''sudo'', ''service'', ''seatd'', ''start''] = ((d_o, dk), r4)"
    by (metis surj_pair)
  have s: "foldl (serviceStep R) ((r, []), []) serviceSteps =
       ((r4, [([''sudo'', ''sysrc'', ''dbus_enable=YES''], ao, ak),
              ([''sudo'', ''service'', ''dbus'', ''start''], bo, bk),
              ([''sudo'', ''sysrc'', ''seatd_enable=YES''], co, ck),
              ([''sudo'', ''service'', ''seatd'', ''start''], d_o, dk)]),
        [serviceLine ''Enabling dbus service'' (ao, ak),
         serviceLine ''Starting dbus service'' (bo, bk),
         serviceLine ''Enabling seatd service'' (co, ck),
         serviceLine ''Starting seatd service'' (d_o, dk)])"
    by (simp add: serviceSteps_def serviceStep_def exec_def a b c d)
  show ?thesis
  proof (cases "currentUserOf w = []")
    case True
    obtain ko kk r6 where k: "R r4 [''sudo'', ''kldload'', ''drm''] = ((ko, kk), r6)"
      by (metis surj_pair)
    obtain po pk r7 where p: "R r6 [''sudo'', ''sysrc'', ''kld_list+=drm''] = ((po, pk), r7)"
      by (metis surj_pair)
    show ?thesis
      apply (rule exI [of _ "(ao, ak)"], rule exI [of _ "(bo, bk)"], rule exI [of _ "(co, ck)"],
          rule exI [of _ "(d_o, dk)"], rule exI [of _ "([], True)"], rule exI [of _ "(ko, kk)"],
          rule exI [of _ "(po, pk)"], rule exI [of _ r7])
      apply (simp add: s groupStep_def kldStep_def persistStep_def exec_def Let_def True a b c d k p)
      done
  next
    case False
    obtain go gk r5
      where g: "R r4 [''sudo'', ''pw'', ''groupmod'', ''video'', ''-m'', currentUserOf w]
                  = ((go, gk), r5)"
      by (metis surj_pair)
    obtain ko kk r6 where k: "R r5 [''sudo'', ''kldload'', ''drm''] = ((ko, kk), r6)"
      by (metis surj_pair)
    obtain po pk r7 where p: "R r6 [''sudo'', ''sysrc'', ''kld_list+=drm''] = ((po, pk), r7)"
      by (metis surj_pair)
    show ?thesis
      apply (rule exI [of _ "(ao, ak)"], rule exI [of _ "(bo, bk)"], rule exI [of _ "(co, ck)"],
          rule exI [of _ "(d_o, dk)"], rule exI [of _ "(go, gk)"], rule exI [of _ "(ko, kk)"],
          rule exI [of _ "(po, pk)"], rule exI [of _ r7])
      apply (simp add: s groupStep_def kldStep_def persistStep_def exec_def Let_def False a b c d g k p)
      done
  qed
qed

lemma setupSystemRun_eq:
  "setupSystemRun R r w =
     (let st = persistStep R (kldStep R (groupStep R w
                 (foldl (serviceStep R) ((r, []), []) serviceSteps)))
      in (fst st, fst (profileStep w []),
          renderStep (fst (profileStep w [])) (snd (profileStep w (snd st))) @ closingLines))"
proof -
  let ?st = "persistStep R (kldStep R (groupStep R w
                 (foldl (serviceStep R) ((r, []), []) serviceSteps)))"
  from profileStep_log [of w "snd ?st"]
  have "fst (profileStep w (snd ?st)) = fst (profileStep w [])" by (rule conjunct1)
  then show ?thesis
    by (simp add: setupSystemRun_def Let_def case_prod_beta)
qed

lemma setupSystem_eq:
  "setupSystem R r w =
     (fst (setupSystemRun R r w), fst (snd (setupSystemRun R r w)),
      \<lparr> status = Join (setupLogs R r w) nl, err = None \<rparr>)"
  by (simp add: setupSystem_def setupLogs_def case_prod_beta)

lemma setupRunner_first:
  "setupEvents setupRunner () exampleWorld ! 0 =
     ([''sudo'', ''sysrc'', ''dbus_enable=YES''], ''sysrc: /etc/rc.conf: Permission denied'', False)"
  by code_simp

lemma setupRunner_events:
  "setupEvents setupRunner () exampleWorld =
     [([''sudo'', ''sysrc'', ''dbus_enable=YES''], ''sysrc: /etc/rc.conf: Permission denied'', False),
      ([''sudo'', ''service'', ''dbus'', ''start''], ''dbus already running? (pid 1234).'', False),
      ([''sudo'', ''sysrc'', ''seatd_enable=YES''], [], True),
      ([''sudo'', ''service'', ''seatd'', ''start''], [], True),
      ([''sudo'', ''pw'', ''groupmod'', ''video'', ''-m'', ''alice''], [], True),
      ([''sudo'', ''kldload'', ''drm''], [], True),
      ([''sudo'', ''sysrc'', ''kld_list+=drm''], [], True)]"
  by code_simp

lemma setupRunner_logs:
  "setupLogs setupRunner () exampleWorld =
     [''Warning: Enabling dbus service: sysrc: /etc/rc.conf: Permission denied'',
      ''Starting dbus service: already running'',
      ''Enabling seatd service: OK'',
      ''Starting seatd service: OK'',
      ''Added user 'alice' to video group: OK'',
      ''Loading DRM kernel module: OK'',
      ''Persisting DRM module to boot: OK'',
      ''Added XDG_RUNTIME_DIR to /home/alice/.profile: OK'',
      ''Added LIBSEAT_BACKEND=consolekit2 to .profile: OK'',
      ''Found DRM render device: /dev/dri/renderD128'',
      ''DRM render device /dev/dri/renderD128 is accessible: OK'',
      [],
      ''System setup complete. You may need to log out and back in for group changes to take effect.'',
      [],
      ''To start niri, switch to a TTY (Ctrl+Alt+F2) and run:'',
      ''  LIBSEAT_BACKEND=consolekit2 ck-launch-session dbus-launch niri --session'']"
  by code_simp

text \<open>
  C4, as stated: the action reports failure exactly when some step fails hard. With the
  runner \<open>setupRunner\<close> the first step, enabling dbus, fails and its output has no
  benign substring; the Result of the action carries no error all the same.
\<close>

theorem setupSystem_hides_failure:
  "err (snd (snd (setupSystem setupRunner () exampleWorld))) = None \<and>
   hardFailure [''already running''] (setupEvents setupRunner () exampleWorld ! 0) \<and>
   setupEvents setupRunner () exampleWorld ! 0 =
     ([''sudo'', ''sysrc'', ''dbus_enable=YES''], ''sysrc: /etc/rc.conf: Permission denied'', False)"
  by (simp add: setupSystem_eq setupRunner_first hardFailure_def)

text \<open>
  C4, amended. Setup System never reports failure: its Result has no error, whatever
  the steps did, and its status is the log joined by line feeds. The commands run are
  the four service commands, the group command when the user is known, the module
  load and its persistence, in this order, and the events are the answers of the
  runner. The log has 16 entries in execution order, each written out below: one for
  each of the four service steps, one for the group, one for the module load, one for
  its persistence, two for the profile, two for the render device and five closing
  lines. The entry of a service step or of the module load begins with "Warning: "
  exactly when the command failed and its output has no benign substring ("already
  running" for the service steps, "already loaded" for the module load); a failure
  with the benign substring is logged as "already running" or "already loaded", a
  success as "OK". The entry of the group step begins with "Warning: " exactly when
  the user is not known or the command failed, and that of the persistence exactly
  when the command failed.
\<close>

theorem setupSystem_never_fails:
  "err (snd (snd (setupSystem R r w))) = None \<and>
   status (snd (snd (setupSystem R r w))) = Join (setupLogs R r w) [CHR 0x0A] \<and>
   snd (fst (setupSystem R r w)) = setupEvents R r w \<and>
   replay R r (setupEvents R r w) = Some (fst (fst (setupSystem R r w))) \<and>
   fst (snd (setupSystem R r w)) = fst (profileStep w []) \<and>
   length (setupLogs R r w) = 16 \<and>
   (\<exists>a b c d g k p.
      (let user = (if os_Getenv w ''USER'' = [] then os_Getenv w ''LOGNAME''
                   else os_Getenv w ''USER'');
           pp = profilePathOf w;
           w1 = fst (xdgStep w []);
           s1 = snd (snd (xdgStep w []));
           w2 = fst (snd (setupSystem R r w));
           dev = findRenderDevice w2;
           service = (\<lambda>desc res.
              if snd res then desc @ '': OK''
              else if Contains (fst res) ''already running'' then desc @ '': already running''
              else ''Warning: '' @ desc @ '': '' @ fst res)
       in setupEvents R r w =
            [([''sudo'', ''sysrc'', ''dbus_enable=YES''], a),
             ([''sudo'', ''service'', ''dbus'', ''start''], b),
             ([''sudo'', ''sysrc'', ''seatd_enable=YES''], c),
             ([''sudo'', ''service'', ''seatd'', ''start''], d)]
            @ (if user = [] then []
               else [([''sudo'', ''pw'', ''groupmod'', ''video'', ''-m'', user], g)])
            @ [([''sudo'', ''kldload'', ''drm''], k),
               ([''sudo'', ''sysrc'', ''kld_list+=drm''], p)] \<and>
          setupLogs R r w =
            [service ''Enabling dbus service'' a,
             service ''Starting dbus service'' b,
             service ''Enabling seatd service'' c,
             service ''Starting seatd service'' d,
             (if user = [] then ''Warning: Could not determine current user for group setup''
              else if snd g then
                ''Added user '' @ [CHR 0x27] @ user @ [CHR 0x27] @ '' to video group: OK''
              else ''Warning: Adding user to video group: '' @ fst g),
             (if snd k then ''Loading DRM kernel module: OK''
              else if Contains (fst k) ''already loaded''
                      \<or> Contains (fst k) ''module already loaded''
              then ''Loading DRM kernel module: already loaded''
              else ''Warning: Loading DRM kernel module: '' @ fst k),
             (if snd p then ''Persisting DRM module to boot: OK''
              else ''Warning: Persisting DRM module to boot: '' @ fst p),
             (if readFailed w pp \<or> \<not> Contains (readString w pp) ''XDG_RUNTIME_DIR''
              then (case os_OpenAppend w pp 420 of
                      Inl e \<Rightarrow> ''Warning: Could not write to '' @ pp @ '': '' @ errText e
                    | Inr f \<Rightarrow> ''Added XDG_RUNTIME_DIR to '' @ pp @ '': OK'')
              else ''XDG_RUNTIME_DIR already in .profile: OK''),
             (if \<not> Contains s1 ''LIBSEAT_BACKEND''
              then (case os_OpenAppend w1 pp 420 of
                      Inl e \<Rightarrow> ''Warning: Could not write to '' @ pp @ '': '' @ errText e
                    | Inr f \<Rightarrow> ''Added LIBSEAT_BACKEND=consolekit2 to .profile: OK'')
              else ''LIBSEAT_BACKEND already in .profile: OK''),
             (if dev \<noteq> [] then ''Found DRM render device: '' @ dev
              else ''Warning: No DRM render device found in /dev/dri/''),
             (if dev \<noteq> [] then
                (case os_Open w2 dev of
                   Some e \<Rightarrow> ''Warning: Cannot access '' @ dev @ '': '' @ errText e
                               @ '' (check video group membership)''
                 | None \<Rightarrow> ''DRM render device '' @ dev @ '' is accessible: OK'')
              else ''  GPU drivers may not be loaded. Check that drm and your GPU kernel module are loaded.''),
             [],
             ''System setup complete. You may need to log out and back in for group changes to take effect.'',
             [],
             ''To start niri, switch to a TTY (Ctrl+Alt+F2) and run:'',
             ''  LIBSEAT_BACKEND=consolekit2 ck-launch-session dbus-launch niri --session''] \<and>
          (HasPrefix (setupLogs R r w ! 0) ''Warning: '' \<longleftrightarrow>
             hardFailure [''already running''] ([''sudo'', ''sysrc'', ''dbus_enable=YES''], a)) \<and>
          (HasPrefix (setupLogs R r w ! 1) ''Warning: '' \<longleftrightarrow>
             hardFailure [''already running''] ([''sudo'', ''service'', ''dbus'', ''start''], b)) \<and>
          (HasPrefix (setupLogs R r w ! 2) ''Warning: '' \<longleftrightarrow>
             hardFailure [''already running''] ([''sudo'', ''sysrc'', ''seatd_enable=YES''], c)) \<and>
          (HasPrefix (setupLogs R r w ! 3) ''Warning: '' \<longleftrightarrow>
             hardFailure [''already running''] ([''sudo'', ''service'', ''seatd'', ''start''], d)) \<and>
          (HasPrefix (setupLogs R r w ! 4) ''Warning: '' \<longleftrightarrow> user = [] \<or> \<not> snd g) \<and>
          (HasPrefix (setupLogs R r w ! 5) ''Warning: '' \<longleftrightarrow>
             hardFailure [''already loaded'', ''module already loaded'']
               ([''sudo'', ''kldload'', ''drm''], k)) \<and>
          (HasPrefix (setupLogs R r w ! 6) ''Warning: '' \<longleftrightarrow> \<not> snd p)))"
proof -
  let ?st = "persistStep R (kldStep R (groupStep R w
                 (foldl (serviceStep R) ((r, []), []) serviceSteps)))"
  let ?user = "currentUserOf w"
  from commands_shape [of R w r] obtain a b c d g k p r' where
    st: "?st = ((r',
           [([''sudo'', ''sysrc'', ''dbus_enable=YES''], a),
            ([''sudo'', ''service'', ''dbus'', ''start''], b),
            ([''sudo'', ''sysrc'', ''seatd_enable=YES''], c),
            ([''sudo'', ''service'', ''seatd'', ''start''], d)]
           @ (if ?user = [] then []
              else [([''sudo'', ''pw'', ''groupmod'', ''video'', ''-m'', ?user], g)])
           @ [([''sudo'', ''kldload'', ''drm''], k), ([''sudo'', ''sysrc'', ''kld_list+=drm''], p)]),
          [serviceLine ''Enabling dbus service'' a, serviceLine ''Starting dbus service'' b,
           serviceLine ''Enabling seatd service'' c, serviceLine ''Starting seatd service'' d,
           (if ?user = [] then ''Warning: Could not determine current user for group setup''
            else groupLine ?user g),
           kldLine k, persistLine p])" (is "_ = ((r', ?ev), ?lg)")
    and rp: "replay R r
       ([([''sudo'', ''sysrc'', ''dbus_enable=YES''], a),
         ([''sudo'', ''service'', ''dbus'', ''start''], b),
         ([''sudo'', ''sysrc'', ''seatd_enable=YES''], c),
         ([''sudo'', ''service'', ''seatd'', ''start''], d)]
        @ (if ?user = [] then []
           else [([''sudo'', ''pw'', ''groupmod'', ''video'', ''-m'', ?user], g)])
        @ [([''sudo'', ''kldload'', ''drm''], k), ([''sudo'', ''sysrc'', ''kld_list+=drm''], p)])
       = Some r'"
    by blast
  have run: "setupSystemRun R r w =
       ((r', ?ev), fst (profileStep w []),
        renderStep (fst (profileStep w [])) (snd (profileStep w ?lg)) @ closingLines)"
    by (simp add: setupSystemRun_eq Let_def st)
  have ev: "setupEvents R r w = ?ev" by (simp add: setupEvents_def run)
  have w2: "fst (snd (setupSystem R r w)) = fst (profileStep w [])"
    by (simp add: setupSystem_eq run)
  have lg: "setupLogs R r w =
              renderStep (fst (profileStep w [])) (snd (profileStep w ?lg)) @ closingLines"
    by (simp add: setupLogs_def run)
  note pl = profileStep_log [of w ?lg, THEN conjunct2]
  note rl = renderStep_log [of "fst (profileStep w [])" "snd (profileStep w ?lg)"]
  have lines: "setupLogs R r w =
            [serviceLine ''Enabling dbus service'' a,
             serviceLine ''Starting dbus service'' b,
             serviceLine ''Enabling seatd service'' c,
             serviceLine ''Starting seatd service'' d,
             (if ?user = [] then ''Warning: Could not determine current user for group setup''
              else groupLine ?user g),
             kldLine k, persistLine p,
             (if readFailed w (profilePathOf w)
                 \<or> \<not> Contains (readString w (profilePathOf w)) ''XDG_RUNTIME_DIR''
              then (case os_OpenAppend w (profilePathOf w) 420 of
                      Inl e \<Rightarrow> ''Warning: Could not write to '' @ profilePathOf w @ '': ''
                                 @ errText e
                    | Inr f \<Rightarrow> ''Added XDG_RUNTIME_DIR to '' @ profilePathOf w @ '': OK'')
              else ''XDG_RUNTIME_DIR already in .profile: OK''),
             (if \<not> Contains (snd (snd (xdgStep w []))) ''LIBSEAT_BACKEND''
              then (case os_OpenAppend (fst (xdgStep w [])) (profilePathOf w) 420 of
                      Inl e \<Rightarrow> ''Warning: Could not write to '' @ profilePathOf w @ '': ''
                                 @ errText e
                    | Inr f \<Rightarrow> ''Added LIBSEAT_BACKEND=consolekit2 to .profile: OK'')
              else ''LIBSEAT_BACKEND already in .profile: OK''),
             (if findRenderDevice (fst (profileStep w [])) \<noteq> []
              then ''Found DRM render device: '' @ findRenderDevice (fst (profileStep w []))
              else ''Warning: No DRM render device found in /dev/dri/''),
             (if findRenderDevice (fst (profileStep w [])) \<noteq> [] then
                (case os_Open (fst (profileStep w [])) (findRenderDevice (fst (profileStep w []))) of
                   Some e \<Rightarrow> ''Warning: Cannot access ''
                               @ findRenderDevice (fst (profileStep w [])) @ '': '' @ errText e
                               @ '' (check video group membership)''
                 | None \<Rightarrow> ''DRM render device '' @ findRenderDevice (fst (profileStep w []))
                             @ '' is accessible: OK'')
              else ''  GPU drivers may not be loaded. Check that drm and your GPU kernel module are loaded.''),
             [],
             ''System setup complete. You may need to log out and back in for group changes to take effect.'',
             [],
             ''To start niri, switch to a TTY (Ctrl+Alt+F2) and run:'',
             ''  LIBSEAT_BACKEND=consolekit2 ck-launch-session dbus-launch niri --session'']"
    by (subst lg, subst rl, subst pl) (simp add: closingLines_def startHint_def)
  have 1: "err (snd (snd (setupSystem R r w))) = None"
    and 2: "status (snd (snd (setupSystem R r w))) = Join (setupLogs R r w) [CHR 0x0A]"
    by (simp_all add: setupSystem_eq nl_def)
  have 3: "snd (fst (setupSystem R r w)) = setupEvents R r w"
    by (simp add: setupSystem_eq setupEvents_def)
  from rp have 4: "replay R r (setupEvents R r w) = Some (fst (fst (setupSystem R r w)))"
    by (simp add: ev setupSystem_eq run)
  have 6: "length (setupLogs R r w) = 16" by (simp add: lines)
  have n: "setupLogs R r w ! 0 = serviceLine ''Enabling dbus service'' a"
    "setupLogs R r w ! 1 = serviceLine ''Starting dbus service'' b"
    "setupLogs R r w ! 2 = serviceLine ''Enabling seatd service'' c"
    "setupLogs R r w ! 3 = serviceLine ''Starting seatd service'' d"
    "setupLogs R r w ! 4 =
       (if ?user = [] then ''Warning: Could not determine current user for group setup''
        else groupLine ?user g)"
    "setupLogs R r w ! 5 = kldLine k"
    "setupLogs R r w ! 6 = persistLine p"
    by (simp_all add: lines)
  have h0: "HasPrefix (setupLogs R r w ! 0) ''Warning: '' \<longleftrightarrow>
             hardFailure [''already running''] ([''sudo'', ''sysrc'', ''dbus_enable=YES''], a)"
    unfolding n by (simp add: serviceLine_text hardFailure_def)
  have h1: "HasPrefix (setupLogs R r w ! 1) ''Warning: '' \<longleftrightarrow>
             hardFailure [''already running''] ([''sudo'', ''service'', ''dbus'', ''start''], b)"
    unfolding n by (simp add: serviceLine_text hardFailure_def)
  have h2: "HasPrefix (setupLogs R r w ! 2) ''Warning: '' \<longleftrightarrow>
             hardFailure [''already running''] ([''sudo'', ''sysrc'', ''seatd_enable=YES''], c)"
    unfolding n by (simp add: serviceLine_text hardFailure_def)
  have h3: "HasPrefix (setupLogs R r w ! 3) ''Warning: '' \<longleftrightarrow>
             hardFailure [''already running''] ([''sudo'', ''service'', ''seatd'', ''start''], d)"
    unfolding n by (simp add: serviceLine_text hardFailure_def)
  have h4: "HasPrefix (setupLogs R r w ! 4) ''Warning: '' \<longleftrightarrow> ?user = [] \<or> \<not> snd g"
    unfolding n by (simp add: groupLine_text)
  have h5: "HasPrefix (setupLogs R r w ! 5) ''Warning: '' \<longleftrightarrow>
             hardFailure [''already loaded'', ''module already loaded'']
               ([''sudo'', ''kldload'', ''drm''], k)"
    unfolding n by (simp add: kldLine_text hardFailure_def)
  have h6: "HasPrefix (setupLogs R r w ! 6) ''Warning: '' \<longleftrightarrow> \<not> snd p"
    unfolding n by (simp add: persistLine_text)
  have u: "?user = (if os_Getenv w ''USER'' = [] then os_Getenv w ''LOGNAME''
                    else os_Getenv w ''USER'')"
    by (simp add: currentUserOf_def)
  have 7: "\<exists>a b c d g k p.
      (let user = (if os_Getenv w ''USER'' = [] then os_Getenv w ''LOGNAME''
                   else os_Getenv w ''USER'');
           pp = profilePathOf w;
           w1 = fst (xdgStep w []);
           s1 = snd (snd (xdgStep w []));
           w2 = fst (snd (setupSystem R r w));
           dev = findRenderDevice w2;
           service = (\<lambda>desc res.
              if snd res then desc @ '': OK''
              else if Contains (fst res) ''already running'' then desc @ '': already running''
              else ''Warning: '' @ desc @ '': '' @ fst res)
       in setupEvents R r w =
            [([''sudo'', ''sysrc'', ''dbus_enable=YES''], a),
             ([''sudo'', ''service'', ''dbus'', ''start''], b),
             ([''sudo'', ''sysrc'', ''seatd_enable=YES''], c),
             ([''sudo'', ''service'', ''seatd'', ''start''], d)]
            @ (if user = [] then []
               else [([''sudo'', ''pw'', ''groupmod'', ''video'', ''-m'', user], g)])
            @ [([''sudo'', ''kldload'', ''drm''], k),
               ([''sudo'', ''sysrc'', ''kld_list+=drm''], p)] \<and>
          setupLogs R r w =
            [service ''Enabling dbus service'' a,
             service ''Starting dbus service'' b,
             service ''Enabling seatd service'' c,
             service ''Starting seatd service'' d,
             (if user = [] then ''Warning: Could not determine current user for group setup''
              else if snd g then
                ''Added user '' @ [CHR 0x27] @ user @ [CHR 0x27] @ '' to video group: OK''
              else ''Warning: Adding user to video group: '' @ fst g),
             (if snd k then ''Loading DRM kernel module: OK''
              else if Contains (fst k) ''already loaded''
                      \<or> Contains (fst k) ''module already loaded''
              then ''Loading DRM kernel module: already loaded''
              else ''Warning: Loading DRM kernel module: '' @ fst k),
             (if snd p then ''Persisting DRM module to boot: OK''
              else ''Warning: Persisting DRM module to boot: '' @ fst p),
             (if readFailed w pp \<or> \<not> Contains (readString w pp) ''XDG_RUNTIME_DIR''
              then (case os_OpenAppend w pp 420 of
                      Inl e \<Rightarrow> ''Warning: Could not write to '' @ pp @ '': '' @ errText e
                    | Inr f \<Rightarrow> ''Added XDG_RUNTIME_DIR to '' @ pp @ '': OK'')
              else ''XDG_RUNTIME_DIR already in .profile: OK''),
             (if \<not> Contains s1 ''LIBSEAT_BACKEND''
              then (case os_OpenAppend w1 pp 420 of
                      Inl e \<Rightarrow> ''Warning: Could not write to '' @ pp @ '': '' @ errText e
                    | Inr f \<Rightarrow> ''Added LIBSEAT_BACKEND=consolekit2 to .profile: OK'')
              else ''LIBSEAT_BACKEND already in .profile: OK''),
             (if dev \<noteq> [] then ''Found DRM render device: '' @ dev
              else ''Warning: No DRM render device found in /dev/dri/''),
             (if dev \<noteq> [] then
                (case os_Open w2 dev of
                   Some e \<Rightarrow> ''Warning: Cannot access '' @ dev @ '': '' @ errText e
                               @ '' (check video group membership)''
                 | None \<Rightarrow> ''DRM render device '' @ dev @ '' is accessible: OK'')
              else ''  GPU drivers may not be loaded. Check that drm and your GPU kernel module are loaded.''),
             [],
             ''System setup complete. You may need to log out and back in for group changes to take effect.'',
             [],
             ''To start niri, switch to a TTY (Ctrl+Alt+F2) and run:'',
             ''  LIBSEAT_BACKEND=consolekit2 ck-launch-session dbus-launch niri --session''] \<and>
          (HasPrefix (setupLogs R r w ! 0) ''Warning: '' \<longleftrightarrow>
             hardFailure [''already running''] ([''sudo'', ''sysrc'', ''dbus_enable=YES''], a)) \<and>
          (HasPrefix (setupLogs R r w ! 1) ''Warning: '' \<longleftrightarrow>
             hardFailure [''already running''] ([''sudo'', ''service'', ''dbus'', ''start''], b)) \<and>
          (HasPrefix (setupLogs R r w ! 2) ''Warning: '' \<longleftrightarrow>
             hardFailure [''already running''] ([''sudo'', ''sysrc'', ''seatd_enable=YES''], c)) \<and>
          (HasPrefix (setupLogs R r w ! 3) ''Warning: '' \<longleftrightarrow>
             hardFailure [''already running''] ([''sudo'', ''service'', ''seatd'', ''start''], d)) \<and>
          (HasPrefix (setupLogs R r w ! 4) ''Warning: '' \<longleftrightarrow> user = [] \<or> \<not> snd g) \<and>
          (HasPrefix (setupLogs R r w ! 5) ''Warning: '' \<longleftrightarrow>
             hardFailure [''already loaded'', ''module already loaded'']
               ([''sudo'', ''kldload'', ''drm''], k)) \<and>
          (HasPrefix (setupLogs R r w ! 6) ''Warning: '' \<longleftrightarrow> \<not> snd p))"
    unfolding Let_def w2 u [symmetric]
    apply (rule exI [of _ a], rule exI [of _ b], rule exI [of _ c], rule exI [of _ d],
        rule exI [of _ g], rule exI [of _ k], rule exI [of _ p])
    apply (intro conjI)
            apply (rule ev)
           apply (simp only: lines serviceLine_text groupLine_text kldLine_text persistLine_text)
          apply (rule h0)
         apply (rule h1)
        apply (rule h2)
       apply (rule h3)
      apply (rule h4)
     apply (rule h5)
    apply (rule h6)
    done
  from 1 2 3 4 w2 6 7 show ?thesis by (intro conjI)
qed

theorem setupSystem_never_fails_witness:
  "err (snd (snd (setupSystem setupRunner () exampleWorld))) = None \<and>
   setupEvents setupRunner () exampleWorld ! 0 =
     ([''sudo'', ''sysrc'', ''dbus_enable=YES''], ''sysrc: /etc/rc.conf: Permission denied'', False) \<and>
   hardFailure [''already running'']
     ([''sudo'', ''sysrc'', ''dbus_enable=YES''], ''sysrc: /etc/rc.conf: Permission denied'', False) \<and>
   HasPrefix (setupLogs setupRunner () exampleWorld ! 0) ''Warning: '' \<and>
   setupEvents setupRunner () exampleWorld ! 1 =
     ([''sudo'', ''service'', ''dbus'', ''start''], ''dbus already running? (pid 1234).'', False) \<and>
   \<not> hardFailure [''already running'']
     ([''sudo'', ''service'', ''dbus'', ''start''], ''dbus already running? (pid 1234).'', False) \<and>
   \<not> HasPrefix (setupLogs setupRunner () exampleWorld ! 1) ''Warning: '' \<and>
   length (setupLogs setupRunner () exampleWorld) = 16 \<and>
   replay setupRunner () (setupEvents setupRunner () exampleWorld) = Some () \<and>
   setupEvents setupRunner () exampleWorld =
     [([''sudo'', ''sysrc'', ''dbus_enable=YES''], ''sysrc: /etc/rc.conf: Permission denied'', False),
      ([''sudo'', ''service'', ''dbus'', ''start''], ''dbus already running? (pid 1234).'', False),
      ([''sudo'', ''sysrc'', ''seatd_enable=YES''], [], True),
      ([''sudo'', ''service'', ''seatd'', ''start''], [], True),
      ([''sudo'', ''pw'', ''groupmod'', ''video'', ''-m'', ''alice''], [], True),
      ([''sudo'', ''kldload'', ''drm''], [], True),
      ([''sudo'', ''sysrc'', ''kld_list+=drm''], [], True)] \<and>
   setupLogs setupRunner () exampleWorld =
     [''Warning: Enabling dbus service: sysrc: /etc/rc.conf: Permission denied'',
      ''Starting dbus service: already running'',
      ''Enabling seatd service: OK'',
      ''Starting seatd service: OK'',
      ''Added user 'alice' to video group: OK'',
      ''Loading DRM kernel module: OK'',
      ''Persisting DRM module to boot: OK'',
      ''Added XDG_RUNTIME_DIR to /home/alice/.profile: OK'',
      ''Added LIBSEAT_BACKEND=consolekit2 to .profile: OK'',
      ''Found DRM render device: /dev/dri/renderD128'',
      ''DRM render device /dev/dri/renderD128 is accessible: OK'',
      [],
      ''System setup complete. You may need to log out and back in for group changes to take effect.'',
      [],
      ''To start niri, switch to a TTY (Ctrl+Alt+F2) and run:'',
      ''  LIBSEAT_BACKEND=consolekit2 ck-launch-session dbus-launch niri --session''] \<and>
   status (snd (snd (setupSystem setupRunner () exampleWorld))) =
     Join [''Warning: Enabling dbus service: sysrc: /etc/rc.conf: Permission denied'',
      ''Starting dbus service: already running'',
      ''Enabling seatd service: OK'',
      ''Starting seatd service: OK'',
      ''Added user 'alice' to video group: OK'',
      ''Loading DRM kernel module: OK'',
      ''Persisting DRM module to boot: OK'',
      ''Added XDG_RUNTIME_DIR to /home/alice/.profile: OK'',
      ''Added LIBSEAT_BACKEND=consolekit2 to .profile: OK'',
      ''Found DRM render device: /dev/dri/renderD128'',
      ''DRM render device /dev/dri/renderD128 is accessible: OK'',
      [],
      ''System setup complete. You may need to log out and back in for group changes to take effect.'',
      [],
      ''To start niri, switch to a TTY (Ctrl+Alt+F2) and run:'',
      ''  LIBSEAT_BACKEND=consolekit2 ck-launch-session dbus-launch niri --session'']
      [CHR 0x0A]"
proof -
  note t = setupSystem_never_fails [of setupRunner "()" exampleWorld, unfolded Let_def]
  from t have 1: "err (snd (snd (setupSystem setupRunner () exampleWorld))) = None"
    by (rule conjunct1)
  from t have s: "status (snd (snd (setupSystem setupRunner () exampleWorld)))
                    = Join (setupLogs setupRunner () exampleWorld) [CHR 0x0A]"
    by (elim conjE)
  from t have rp: "replay setupRunner () (setupEvents setupRunner () exampleWorld)
                     = Some (fst (fst (setupSystem setupRunner () exampleWorld)))"
    by (elim conjE)
  from t have len: "length (setupLogs setupRunner () exampleWorld) = 16"
    by (elim conjE)
  from t obtain a b where
    ev: "take 2 (setupEvents setupRunner () exampleWorld) =
            [([''sudo'', ''sysrc'', ''dbus_enable=YES''], a),
             ([''sudo'', ''service'', ''dbus'', ''start''], b)]"
    and h0: "HasPrefix (setupLogs setupRunner () exampleWorld ! 0) ''Warning: '' \<longleftrightarrow>
             hardFailure [''already running''] ([''sudo'', ''sysrc'', ''dbus_enable=YES''], a)"
    and h1: "HasPrefix (setupLogs setupRunner () exampleWorld ! 1) ''Warning: '' \<longleftrightarrow>
             hardFailure [''already running''] ([''sudo'', ''service'', ''dbus'', ''start''], b)"
    by (elim conjE exE) simp
  from ev have a: "a = (''sysrc: /etc/rc.conf: Permission denied'', False)"
    and b: "b = (''dbus already running? (pid 1234).'', False)"
    by (simp_all add: setupRunner_events)
  have e0: "setupEvents setupRunner () exampleWorld ! 0 =
     ([''sudo'', ''sysrc'', ''dbus_enable=YES''], ''sysrc: /etc/rc.conf: Permission denied'', False)"
    and e1: "setupEvents setupRunner () exampleWorld ! 1 =
     ([''sudo'', ''service'', ''dbus'', ''start''], ''dbus already running? (pid 1234).'', False)"
    by (simp_all add: setupRunner_events)
  have f0: "hardFailure [''already running'']
     ([''sudo'', ''sysrc'', ''dbus_enable=YES''], ''sysrc: /etc/rc.conf: Permission denied'', False)"
    by (simp add: hardFailure_def)
  have f1: "\<not> hardFailure [''already running'']
     ([''sudo'', ''service'', ''dbus'', ''start''], ''dbus already running? (pid 1234).'', False)"
    by (simp add: hardFailure_def)
  from h0 [unfolded a] f0
  have w0: "HasPrefix (setupLogs setupRunner () exampleWorld ! 0) ''Warning: ''"
    by blast
  from h1 [unfolded b] f1
  have w1: "\<not> HasPrefix (setupLogs setupRunner () exampleWorld ! 1) ''Warning: ''"
    by blast
  from rp have rp': "replay setupRunner () (setupEvents setupRunner () exampleWorld) = Some ()"
    by simp
  from s have s': "status (snd (snd (setupSystem setupRunner () exampleWorld))) =
     Join [''Warning: Enabling dbus service: sysrc: /etc/rc.conf: Permission denied'',
      ''Starting dbus service: already running'',
      ''Enabling seatd service: OK'',
      ''Starting seatd service: OK'',
      ''Added user 'alice' to video group: OK'',
      ''Loading DRM kernel module: OK'',
      ''Persisting DRM module to boot: OK'',
      ''Added XDG_RUNTIME_DIR to /home/alice/.profile: OK'',
      ''Added LIBSEAT_BACKEND=consolekit2 to .profile: OK'',
      ''Found DRM render device: /dev/dri/renderD128'',
      ''DRM render device /dev/dri/renderD128 is accessible: OK'',
      [],
      ''System setup complete. You may need to log out and back in for group changes to take effect.'',
      [],
      ''To start niri, switch to a TTY (Ctrl+Alt+F2) and run:'',
      ''  LIBSEAT_BACKEND=consolekit2 ck-launch-session dbus-launch niri --session'']
      [CHR 0x0A]"
    by (simp only: setupRunner_logs)
  from 1 e0 f0 w0 e1 f1 w1 len rp' setupRunner_events setupRunner_logs s'
  show ?thesis by - (intro conjI; assumption)
qed

section \<open>Properties of the profile step\<close>


























end
